theory Spec2Isabelle
  imports Main "HOL-Library.Sublist" "HOL-Library.Multiset"
begin

section \<open>Strings\<close>

text \<open>
  A Python \<^verbatim>\<open>str\<close> is a sequence of Unicode code points; it is modelled as a list of
  natural numbers, one per code point, so that \<^verbatim>\<open>len\<close> is \<open>length\<close> and the bullet
  \<^verbatim>\<open>U+2022\<close> of the separator pattern is a character like any other. \<open>py\<close> turns a
  literal into such a string.

  The classes \<^verbatim>\<open>\s\<close> and \<^verbatim>\<open>str.isspace\<close> agree in CPython. \<^verbatim>\<open>[A-Za-z]\<close> and
  \<^verbatim>\<open>[A-Z]\<close> are ASCII by definition. The classes \<^verbatim>\<open>\d\<close>, \<^verbatim>\<open>\w\<close> and the case
  tests of \<^verbatim>\<open>str.isupper\<close> are read from the interpreter's Unicode database, here that
  of CPython 3.11 (Unicode 14.0.0). Each of them is written out for the code points below
  256 and given by a table of inclusive ranges for the code points from 256 to 1114111.
\<close>

type_synonym pystr = "nat list"

definition py :: "string \<Rightarrow> pystr" where
  "py s = map of_char s"

definition in_ranges :: "(nat \<times> nat) list \<Rightarrow> nat \<Rightarrow> bool" where
  "in_ranges rs c \<longleftrightarrow> list_ex (\<lambda>(a, b). a \<le> c \<and> c \<le> b) rs"

definition is_space :: "nat \<Rightarrow> bool" where
  "is_space c \<longleftrightarrow>
     (9 \<le> c \<and> c \<le> 13) \<or> (28 \<le> c \<and> c \<le> 32) \<or> c = 133 \<or> c = 160 \<or> c = 5760 \<or>
     (8192 \<le> c \<and> c \<le> 8202) \<or> c = 8232 \<or> c = 8233 \<or> c = 8239 \<or> c = 8287 \<or> c = 12288"

text \<open>\<^verbatim>\<open>\d\<close>: the decimal digits (general category \<^verbatim>\<open>Nd\<close>).\<close>

definition decimal_ranges :: "(nat \<times> nat) list" where
  "decimal_ranges =
    [(1632, 1641), (1776, 1785), (1984, 1993), (2406, 2415), (2534, 2543), (2662, 2671),
     (2790, 2799), (2918, 2927), (3046, 3055), (3174, 3183), (3302, 3311), (3430, 3439),
     (3558, 3567), (3664, 3673), (3792, 3801), (3872, 3881), (4160, 4169), (4240, 4249),
     (6112, 6121), (6160, 6169), (6470, 6479), (6608, 6617), (6784, 6793), (6800, 6809),
     (6992, 7001), (7088, 7097), (7232, 7241), (7248, 7257), (42528, 42537), (43216, 43225),
     (43264, 43273), (43472, 43481), (43504, 43513), (43600, 43609), (44016, 44025),
     (65296, 65305), (66720, 66729), (68912, 68921), (69734, 69743), (69872, 69881),
     (69942, 69951), (70096, 70105), (70384, 70393), (70736, 70745), (70864, 70873),
     (71248, 71257), (71360, 71369), (71472, 71481), (71904, 71913), (72016, 72025),
     (72784, 72793), (73040, 73049), (73120, 73129), (92768, 92777), (92864, 92873),
     (93008, 93017), (120782, 120831), (123200, 123209), (123632, 123641), (125264, 125273),
     (130032, 130041)]"

definition is_digit :: "nat \<Rightarrow> bool" where
  "is_digit c \<longleftrightarrow> (if c < 256 then 48 \<le> c \<and> c \<le> 57 else in_ranges decimal_ranges c)"

definition is_ascii_upper :: "nat \<Rightarrow> bool" where
  "is_ascii_upper c \<longleftrightarrow> 65 \<le> c \<and> c \<le> 90"

definition is_ascii_letter :: "nat \<Rightarrow> bool" where
  "is_ascii_letter c \<longleftrightarrow> (65 \<le> c \<and> c \<le> 90) \<or> (97 \<le> c \<and> c \<le> 122)"

text \<open>\<^verbatim>\<open>\w\<close>: the alphanumeric characters (\<^verbatim>\<open>str.isalnum\<close>) and the underscore.\<close>

definition word_ranges :: "(nat \<times> nat) list" where
  "word_ranges =
    [(256, 705), (710, 721), (736, 740), (748, 748), (750, 750), (880, 884), (886, 887),
     (890, 893), (895, 895), (902, 902), (904, 906), (908, 908), (910, 929), (931, 1013),
     (1015, 1153), (1162, 1327), (1329, 1366), (1369, 1369), (1376, 1416), (1488, 1514),
     (1519, 1522), (1568, 1610), (1632, 1641), (1646, 1647), (1649, 1747), (1749, 1749),
     (1765, 1766), (1774, 1788), (1791, 1791), (1808, 1808), (1810, 1839), (1869, 1957),
     (1969, 1969), (1984, 2026), (2036, 2037), (2042, 2042), (2048, 2069), (2074, 2074),
     (2084, 2084), (2088, 2088), (2112, 2136), (2144, 2154), (2160, 2183), (2185, 2190),
     (2208, 2249), (2308, 2361), (2365, 2365), (2384, 2384), (2392, 2401), (2406, 2415),
     (2417, 2432), (2437, 2444), (2447, 2448), (2451, 2472), (2474, 2480), (2482, 2482),
     (2486, 2489), (2493, 2493), (2510, 2510), (2524, 2525), (2527, 2529), (2534, 2545),
     (2548, 2553), (2556, 2556), (2565, 2570), (2575, 2576), (2579, 2600), (2602, 2608),
     (2610, 2611), (2613, 2614), (2616, 2617), (2649, 2652), (2654, 2654), (2662, 2671),
     (2674, 2676), (2693, 2701), (2703, 2705), (2707, 2728), (2730, 2736), (2738, 2739),
     (2741, 2745), (2749, 2749), (2768, 2768), (2784, 2785), (2790, 2799), (2809, 2809),
     (2821, 2828), (2831, 2832), (2835, 2856), (2858, 2864), (2866, 2867), (2869, 2873),
     (2877, 2877), (2908, 2909), (2911, 2913), (2918, 2927), (2929, 2935), (2947, 2947),
     (2949, 2954), (2958, 2960), (2962, 2965), (2969, 2970), (2972, 2972), (2974, 2975),
     (2979, 2980), (2984, 2986), (2990, 3001), (3024, 3024), (3046, 3058), (3077, 3084),
     (3086, 3088), (3090, 3112), (3114, 3129), (3133, 3133), (3160, 3162), (3165, 3165),
     (3168, 3169), (3174, 3183), (3192, 3198), (3200, 3200), (3205, 3212), (3214, 3216),
     (3218, 3240), (3242, 3251), (3253, 3257), (3261, 3261), (3293, 3294), (3296, 3297),
     (3302, 3311), (3313, 3314), (3332, 3340), (3342, 3344), (3346, 3386), (3389, 3389),
     (3406, 3406), (3412, 3414), (3416, 3425), (3430, 3448), (3450, 3455), (3461, 3478),
     (3482, 3505), (3507, 3515), (3517, 3517), (3520, 3526), (3558, 3567), (3585, 3632),
     (3634, 3635), (3648, 3654), (3664, 3673), (3713, 3714), (3716, 3716), (3718, 3722),
     (3724, 3747), (3749, 3749), (3751, 3760), (3762, 3763), (3773, 3773), (3776, 3780),
     (3782, 3782), (3792, 3801), (3804, 3807), (3840, 3840), (3872, 3891), (3904, 3911),
     (3913, 3948), (3976, 3980), (4096, 4138), (4159, 4169), (4176, 4181), (4186, 4189),
     (4193, 4193), (4197, 4198), (4206, 4208), (4213, 4225), (4238, 4238), (4240, 4249),
     (4256, 4293), (4295, 4295), (4301, 4301), (4304, 4346), (4348, 4680), (4682, 4685),
     (4688, 4694), (4696, 4696), (4698, 4701), (4704, 4744), (4746, 4749), (4752, 4784),
     (4786, 4789), (4792, 4798), (4800, 4800), (4802, 4805), (4808, 4822), (4824, 4880),
     (4882, 4885), (4888, 4954), (4969, 4988), (4992, 5007), (5024, 5109), (5112, 5117),
     (5121, 5740), (5743, 5759), (5761, 5786), (5792, 5866), (5870, 5880), (5888, 5905),
     (5919, 5937), (5952, 5969), (5984, 5996), (5998, 6000), (6016, 6067), (6103, 6103),
     (6108, 6108), (6112, 6121), (6128, 6137), (6160, 6169), (6176, 6264), (6272, 6276),
     (6279, 6312), (6314, 6314), (6320, 6389), (6400, 6430), (6470, 6509), (6512, 6516),
     (6528, 6571), (6576, 6601), (6608, 6618), (6656, 6678), (6688, 6740), (6784, 6793),
     (6800, 6809), (6823, 6823), (6917, 6963), (6981, 6988), (6992, 7001), (7043, 7072),
     (7086, 7141), (7168, 7203), (7232, 7241), (7245, 7293), (7296, 7304), (7312, 7354),
     (7357, 7359), (7401, 7404), (7406, 7411), (7413, 7414), (7418, 7418), (7424, 7615),
     (7680, 7957), (7960, 7965), (7968, 8005), (8008, 8013), (8016, 8023), (8025, 8025),
     (8027, 8027), (8029, 8029), (8031, 8061), (8064, 8116), (8118, 8124), (8126, 8126),
     (8130, 8132), (8134, 8140), (8144, 8147), (8150, 8155), (8160, 8172), (8178, 8180),
     (8182, 8188), (8304, 8305), (8308, 8313), (8319, 8329), (8336, 8348), (8450, 8450),
     (8455, 8455), (8458, 8467), (8469, 8469), (8473, 8477), (8484, 8484), (8486, 8486),
     (8488, 8488), (8490, 8493), (8495, 8505), (8508, 8511), (8517, 8521), (8526, 8526),
     (8528, 8585), (9312, 9371), (9450, 9471), (10102, 10131), (11264, 11492), (11499, 11502),
     (11506, 11507), (11517, 11517), (11520, 11557), (11559, 11559), (11565, 11565),
     (11568, 11623), (11631, 11631), (11648, 11670), (11680, 11686), (11688, 11694),
     (11696, 11702), (11704, 11710), (11712, 11718), (11720, 11726), (11728, 11734),
     (11736, 11742), (11823, 11823), (12293, 12295), (12321, 12329), (12337, 12341),
     (12344, 12348), (12353, 12438), (12445, 12447), (12449, 12538), (12540, 12543),
     (12549, 12591), (12593, 12686), (12690, 12693), (12704, 12735), (12784, 12799),
     (12832, 12841), (12872, 12879), (12881, 12895), (12928, 12937), (12977, 12991),
     (13312, 19903), (19968, 42124), (42192, 42237), (42240, 42508), (42512, 42539),
     (42560, 42606), (42623, 42653), (42656, 42735), (42775, 42783), (42786, 42888),
     (42891, 42954), (42960, 42961), (42963, 42963), (42965, 42969), (42994, 43009),
     (43011, 43013), (43015, 43018), (43020, 43042), (43056, 43061), (43072, 43123),
     (43138, 43187), (43216, 43225), (43250, 43255), (43259, 43259), (43261, 43262),
     (43264, 43301), (43312, 43334), (43360, 43388), (43396, 43442), (43471, 43481),
     (43488, 43492), (43494, 43518), (43520, 43560), (43584, 43586), (43588, 43595),
     (43600, 43609), (43616, 43638), (43642, 43642), (43646, 43695), (43697, 43697),
     (43701, 43702), (43705, 43709), (43712, 43712), (43714, 43714), (43739, 43741),
     (43744, 43754), (43762, 43764), (43777, 43782), (43785, 43790), (43793, 43798),
     (43808, 43814), (43816, 43822), (43824, 43866), (43868, 43881), (43888, 44002),
     (44016, 44025), (44032, 55203), (55216, 55238), (55243, 55291), (63744, 64109),
     (64112, 64217), (64256, 64262), (64275, 64279), (64285, 64285), (64287, 64296),
     (64298, 64310), (64312, 64316), (64318, 64318), (64320, 64321), (64323, 64324),
     (64326, 64433), (64467, 64829), (64848, 64911), (64914, 64967), (65008, 65019),
     (65136, 65140), (65142, 65276), (65296, 65305), (65313, 65338), (65345, 65370),
     (65382, 65470), (65474, 65479), (65482, 65487), (65490, 65495), (65498, 65500),
     (65536, 65547), (65549, 65574), (65576, 65594), (65596, 65597), (65599, 65613),
     (65616, 65629), (65664, 65786), (65799, 65843), (65856, 65912), (65930, 65931),
     (66176, 66204), (66208, 66256), (66273, 66299), (66304, 66339), (66349, 66378),
     (66384, 66421), (66432, 66461), (66464, 66499), (66504, 66511), (66513, 66517),
     (66560, 66717), (66720, 66729), (66736, 66771), (66776, 66811), (66816, 66855),
     (66864, 66915), (66928, 66938), (66940, 66954), (66956, 66962), (66964, 66965),
     (66967, 66977), (66979, 66993), (66995, 67001), (67003, 67004), (67072, 67382),
     (67392, 67413), (67424, 67431), (67456, 67461), (67463, 67504), (67506, 67514),
     (67584, 67589), (67592, 67592), (67594, 67637), (67639, 67640), (67644, 67644),
     (67647, 67669), (67672, 67702), (67705, 67742), (67751, 67759), (67808, 67826),
     (67828, 67829), (67835, 67867), (67872, 67897), (67968, 68023), (68028, 68047),
     (68050, 68096), (68112, 68115), (68117, 68119), (68121, 68149), (68160, 68168),
     (68192, 68222), (68224, 68255), (68288, 68295), (68297, 68324), (68331, 68335),
     (68352, 68405), (68416, 68437), (68440, 68466), (68472, 68497), (68521, 68527),
     (68608, 68680), (68736, 68786), (68800, 68850), (68858, 68899), (68912, 68921),
     (69216, 69246), (69248, 69289), (69296, 69297), (69376, 69415), (69424, 69445),
     (69457, 69460), (69488, 69505), (69552, 69579), (69600, 69622), (69635, 69687),
     (69714, 69743), (69745, 69746), (69749, 69749), (69763, 69807), (69840, 69864),
     (69872, 69881), (69891, 69926), (69942, 69951), (69956, 69956), (69959, 69959),
     (69968, 70002), (70006, 70006), (70019, 70066), (70081, 70084), (70096, 70106),
     (70108, 70108), (70113, 70132), (70144, 70161), (70163, 70187), (70272, 70278),
     (70280, 70280), (70282, 70285), (70287, 70301), (70303, 70312), (70320, 70366),
     (70384, 70393), (70405, 70412), (70415, 70416), (70419, 70440), (70442, 70448),
     (70450, 70451), (70453, 70457), (70461, 70461), (70480, 70480), (70493, 70497),
     (70656, 70708), (70727, 70730), (70736, 70745), (70751, 70753), (70784, 70831),
     (70852, 70853), (70855, 70855), (70864, 70873), (71040, 71086), (71128, 71131),
     (71168, 71215), (71236, 71236), (71248, 71257), (71296, 71338), (71352, 71352),
     (71360, 71369), (71424, 71450), (71472, 71483), (71488, 71494), (71680, 71723),
     (71840, 71922), (71935, 71942), (71945, 71945), (71948, 71955), (71957, 71958),
     (71960, 71983), (71999, 71999), (72001, 72001), (72016, 72025), (72096, 72103),
     (72106, 72144), (72161, 72161), (72163, 72163), (72192, 72192), (72203, 72242),
     (72250, 72250), (72272, 72272), (72284, 72329), (72349, 72349), (72368, 72440),
     (72704, 72712), (72714, 72750), (72768, 72768), (72784, 72812), (72818, 72847),
     (72960, 72966), (72968, 72969), (72971, 73008), (73030, 73030), (73040, 73049),
     (73056, 73061), (73063, 73064), (73066, 73097), (73112, 73112), (73120, 73129),
     (73440, 73458), (73648, 73648), (73664, 73684), (73728, 74649), (74752, 74862),
     (74880, 75075), (77712, 77808), (77824, 78894), (82944, 83526), (92160, 92728),
     (92736, 92766), (92768, 92777), (92784, 92862), (92864, 92873), (92880, 92909),
     (92928, 92975), (92992, 92995), (93008, 93017), (93019, 93025), (93027, 93047),
     (93053, 93071), (93760, 93846), (93952, 94026), (94032, 94032), (94099, 94111),
     (94176, 94177), (94179, 94179), (94208, 100343), (100352, 101589), (101632, 101640),
     (110576, 110579), (110581, 110587), (110589, 110590), (110592, 110882), (110928, 110930),
     (110948, 110951), (110960, 111355), (113664, 113770), (113776, 113788), (113792, 113800),
     (113808, 113817), (119520, 119539), (119648, 119672), (119808, 119892), (119894, 119964),
     (119966, 119967), (119970, 119970), (119973, 119974), (119977, 119980), (119982, 119993),
     (119995, 119995), (119997, 120003), (120005, 120069), (120071, 120074), (120077, 120084),
     (120086, 120092), (120094, 120121), (120123, 120126), (120128, 120132), (120134, 120134),
     (120138, 120144), (120146, 120485), (120488, 120512), (120514, 120538), (120540, 120570),
     (120572, 120596), (120598, 120628), (120630, 120654), (120656, 120686), (120688, 120712),
     (120714, 120744), (120746, 120770), (120772, 120779), (120782, 120831), (122624, 122654),
     (123136, 123180), (123191, 123197), (123200, 123209), (123214, 123214), (123536, 123565),
     (123584, 123627), (123632, 123641), (124896, 124902), (124904, 124907), (124909, 124910),
     (124912, 124926), (124928, 125124), (125127, 125135), (125184, 125251), (125259, 125259),
     (125264, 125273), (126065, 126123), (126125, 126127), (126129, 126132), (126209, 126253),
     (126255, 126269), (126464, 126467), (126469, 126495), (126497, 126498), (126500, 126500),
     (126503, 126503), (126505, 126514), (126516, 126519), (126521, 126521), (126523, 126523),
     (126530, 126530), (126535, 126535), (126537, 126537), (126539, 126539), (126541, 126543),
     (126545, 126546), (126548, 126548), (126551, 126551), (126553, 126553), (126555, 126555),
     (126557, 126557), (126559, 126559), (126561, 126562), (126564, 126564), (126567, 126570),
     (126572, 126578), (126580, 126583), (126585, 126588), (126590, 126590), (126592, 126601),
     (126603, 126619), (126625, 126627), (126629, 126633), (126635, 126651), (127232, 127244),
     (130032, 130041), (131072, 173791), (173824, 177976), (177984, 178205), (178208, 183969),
     (183984, 191456), (194560, 195101), (196608, 201546)]"

definition is_word :: "nat \<Rightarrow> bool" where
  "is_word c \<longleftrightarrow>
     (if c < 256
      then (48 \<le> c \<and> c \<le> 57) \<or> (65 \<le> c \<and> c \<le> 90) \<or> c = 95 \<or> (97 \<le> c \<and> c \<le> 122) \<or>
           c = 170 \<or> c = 178 \<or> c = 179 \<or> c = 181 \<or> c = 185 \<or> c = 186 \<or>
           (188 \<le> c \<and> c \<le> 190) \<or> (192 \<le> c \<and> c \<le> 214) \<or> (216 \<le> c \<and> c \<le> 246) \<or>
           (248 \<le> c \<and> c \<le> 255)
      else in_ranges word_ranges c)"

text \<open>
  \<^verbatim>\<open>str.isupper\<close> is false when the string holds a lowercase or a titlecase character,
  and otherwise true when it holds an uppercase one. \<open>is_upper_char\<close> is the uppercase
  test of one character, \<open>is_lower_char\<close> the test for lowercase or titlecase.
\<close>

definition upper_ranges :: "(nat \<times> nat) list" where
  "upper_ranges =
    [(256, 256), (258, 258), (260, 260), (262, 262), (264, 264), (266, 266), (268, 268),
     (270, 270), (272, 272), (274, 274), (276, 276), (278, 278), (280, 280), (282, 282),
     (284, 284), (286, 286), (288, 288), (290, 290), (292, 292), (294, 294), (296, 296),
     (298, 298), (300, 300), (302, 302), (304, 304), (306, 306), (308, 308), (310, 310),
     (313, 313), (315, 315), (317, 317), (319, 319), (321, 321), (323, 323), (325, 325),
     (327, 327), (330, 330), (332, 332), (334, 334), (336, 336), (338, 338), (340, 340),
     (342, 342), (344, 344), (346, 346), (348, 348), (350, 350), (352, 352), (354, 354),
     (356, 356), (358, 358), (360, 360), (362, 362), (364, 364), (366, 366), (368, 368),
     (370, 370), (372, 372), (374, 374), (376, 377), (379, 379), (381, 381), (385, 386),
     (388, 388), (390, 391), (393, 395), (398, 401), (403, 404), (406, 408), (412, 413),
     (415, 416), (418, 418), (420, 420), (422, 423), (425, 425), (428, 428), (430, 431),
     (433, 435), (437, 437), (439, 440), (444, 444), (452, 452), (455, 455), (458, 458),
     (461, 461), (463, 463), (465, 465), (467, 467), (469, 469), (471, 471), (473, 473),
     (475, 475), (478, 478), (480, 480), (482, 482), (484, 484), (486, 486), (488, 488),
     (490, 490), (492, 492), (494, 494), (497, 497), (500, 500), (502, 504), (506, 506),
     (508, 508), (510, 510), (512, 512), (514, 514), (516, 516), (518, 518), (520, 520),
     (522, 522), (524, 524), (526, 526), (528, 528), (530, 530), (532, 532), (534, 534),
     (536, 536), (538, 538), (540, 540), (542, 542), (544, 544), (546, 546), (548, 548),
     (550, 550), (552, 552), (554, 554), (556, 556), (558, 558), (560, 560), (562, 562),
     (570, 571), (573, 574), (577, 577), (579, 582), (584, 584), (586, 586), (588, 588),
     (590, 590), (880, 880), (882, 882), (886, 886), (895, 895), (902, 902), (904, 906),
     (908, 908), (910, 911), (913, 929), (931, 939), (975, 975), (978, 980), (984, 984),
     (986, 986), (988, 988), (990, 990), (992, 992), (994, 994), (996, 996), (998, 998),
     (1000, 1000), (1002, 1002), (1004, 1004), (1006, 1006), (1012, 1012), (1015, 1015),
     (1017, 1018), (1021, 1071), (1120, 1120), (1122, 1122), (1124, 1124), (1126, 1126),
     (1128, 1128), (1130, 1130), (1132, 1132), (1134, 1134), (1136, 1136), (1138, 1138),
     (1140, 1140), (1142, 1142), (1144, 1144), (1146, 1146), (1148, 1148), (1150, 1150),
     (1152, 1152), (1162, 1162), (1164, 1164), (1166, 1166), (1168, 1168), (1170, 1170),
     (1172, 1172), (1174, 1174), (1176, 1176), (1178, 1178), (1180, 1180), (1182, 1182),
     (1184, 1184), (1186, 1186), (1188, 1188), (1190, 1190), (1192, 1192), (1194, 1194),
     (1196, 1196), (1198, 1198), (1200, 1200), (1202, 1202), (1204, 1204), (1206, 1206),
     (1208, 1208), (1210, 1210), (1212, 1212), (1214, 1214), (1216, 1217), (1219, 1219),
     (1221, 1221), (1223, 1223), (1225, 1225), (1227, 1227), (1229, 1229), (1232, 1232),
     (1234, 1234), (1236, 1236), (1238, 1238), (1240, 1240), (1242, 1242), (1244, 1244),
     (1246, 1246), (1248, 1248), (1250, 1250), (1252, 1252), (1254, 1254), (1256, 1256),
     (1258, 1258), (1260, 1260), (1262, 1262), (1264, 1264), (1266, 1266), (1268, 1268),
     (1270, 1270), (1272, 1272), (1274, 1274), (1276, 1276), (1278, 1278), (1280, 1280),
     (1282, 1282), (1284, 1284), (1286, 1286), (1288, 1288), (1290, 1290), (1292, 1292),
     (1294, 1294), (1296, 1296), (1298, 1298), (1300, 1300), (1302, 1302), (1304, 1304),
     (1306, 1306), (1308, 1308), (1310, 1310), (1312, 1312), (1314, 1314), (1316, 1316),
     (1318, 1318), (1320, 1320), (1322, 1322), (1324, 1324), (1326, 1326), (1329, 1366),
     (4256, 4293), (4295, 4295), (4301, 4301), (5024, 5109), (7312, 7354), (7357, 7359),
     (7680, 7680), (7682, 7682), (7684, 7684), (7686, 7686), (7688, 7688), (7690, 7690),
     (7692, 7692), (7694, 7694), (7696, 7696), (7698, 7698), (7700, 7700), (7702, 7702),
     (7704, 7704), (7706, 7706), (7708, 7708), (7710, 7710), (7712, 7712), (7714, 7714),
     (7716, 7716), (7718, 7718), (7720, 7720), (7722, 7722), (7724, 7724), (7726, 7726),
     (7728, 7728), (7730, 7730), (7732, 7732), (7734, 7734), (7736, 7736), (7738, 7738),
     (7740, 7740), (7742, 7742), (7744, 7744), (7746, 7746), (7748, 7748), (7750, 7750),
     (7752, 7752), (7754, 7754), (7756, 7756), (7758, 7758), (7760, 7760), (7762, 7762),
     (7764, 7764), (7766, 7766), (7768, 7768), (7770, 7770), (7772, 7772), (7774, 7774),
     (7776, 7776), (7778, 7778), (7780, 7780), (7782, 7782), (7784, 7784), (7786, 7786),
     (7788, 7788), (7790, 7790), (7792, 7792), (7794, 7794), (7796, 7796), (7798, 7798),
     (7800, 7800), (7802, 7802), (7804, 7804), (7806, 7806), (7808, 7808), (7810, 7810),
     (7812, 7812), (7814, 7814), (7816, 7816), (7818, 7818), (7820, 7820), (7822, 7822),
     (7824, 7824), (7826, 7826), (7828, 7828), (7838, 7838), (7840, 7840), (7842, 7842),
     (7844, 7844), (7846, 7846), (7848, 7848), (7850, 7850), (7852, 7852), (7854, 7854),
     (7856, 7856), (7858, 7858), (7860, 7860), (7862, 7862), (7864, 7864), (7866, 7866),
     (7868, 7868), (7870, 7870), (7872, 7872), (7874, 7874), (7876, 7876), (7878, 7878),
     (7880, 7880), (7882, 7882), (7884, 7884), (7886, 7886), (7888, 7888), (7890, 7890),
     (7892, 7892), (7894, 7894), (7896, 7896), (7898, 7898), (7900, 7900), (7902, 7902),
     (7904, 7904), (7906, 7906), (7908, 7908), (7910, 7910), (7912, 7912), (7914, 7914),
     (7916, 7916), (7918, 7918), (7920, 7920), (7922, 7922), (7924, 7924), (7926, 7926),
     (7928, 7928), (7930, 7930), (7932, 7932), (7934, 7934), (7944, 7951), (7960, 7965),
     (7976, 7983), (7992, 7999), (8008, 8013), (8025, 8025), (8027, 8027), (8029, 8029),
     (8031, 8031), (8040, 8047), (8120, 8123), (8136, 8139), (8152, 8155), (8168, 8172),
     (8184, 8187), (8450, 8450), (8455, 8455), (8459, 8461), (8464, 8466), (8469, 8469),
     (8473, 8477), (8484, 8484), (8486, 8486), (8488, 8488), (8490, 8493), (8496, 8499),
     (8510, 8511), (8517, 8517), (8544, 8559), (8579, 8579), (9398, 9423), (11264, 11311),
     (11360, 11360), (11362, 11364), (11367, 11367), (11369, 11369), (11371, 11371),
     (11373, 11376), (11378, 11378), (11381, 11381), (11390, 11392), (11394, 11394),
     (11396, 11396), (11398, 11398), (11400, 11400), (11402, 11402), (11404, 11404),
     (11406, 11406), (11408, 11408), (11410, 11410), (11412, 11412), (11414, 11414),
     (11416, 11416), (11418, 11418), (11420, 11420), (11422, 11422), (11424, 11424),
     (11426, 11426), (11428, 11428), (11430, 11430), (11432, 11432), (11434, 11434),
     (11436, 11436), (11438, 11438), (11440, 11440), (11442, 11442), (11444, 11444),
     (11446, 11446), (11448, 11448), (11450, 11450), (11452, 11452), (11454, 11454),
     (11456, 11456), (11458, 11458), (11460, 11460), (11462, 11462), (11464, 11464),
     (11466, 11466), (11468, 11468), (11470, 11470), (11472, 11472), (11474, 11474),
     (11476, 11476), (11478, 11478), (11480, 11480), (11482, 11482), (11484, 11484),
     (11486, 11486), (11488, 11488), (11490, 11490), (11499, 11499), (11501, 11501),
     (11506, 11506), (42560, 42560), (42562, 42562), (42564, 42564), (42566, 42566),
     (42568, 42568), (42570, 42570), (42572, 42572), (42574, 42574), (42576, 42576),
     (42578, 42578), (42580, 42580), (42582, 42582), (42584, 42584), (42586, 42586),
     (42588, 42588), (42590, 42590), (42592, 42592), (42594, 42594), (42596, 42596),
     (42598, 42598), (42600, 42600), (42602, 42602), (42604, 42604), (42624, 42624),
     (42626, 42626), (42628, 42628), (42630, 42630), (42632, 42632), (42634, 42634),
     (42636, 42636), (42638, 42638), (42640, 42640), (42642, 42642), (42644, 42644),
     (42646, 42646), (42648, 42648), (42650, 42650), (42786, 42786), (42788, 42788),
     (42790, 42790), (42792, 42792), (42794, 42794), (42796, 42796), (42798, 42798),
     (42802, 42802), (42804, 42804), (42806, 42806), (42808, 42808), (42810, 42810),
     (42812, 42812), (42814, 42814), (42816, 42816), (42818, 42818), (42820, 42820),
     (42822, 42822), (42824, 42824), (42826, 42826), (42828, 42828), (42830, 42830),
     (42832, 42832), (42834, 42834), (42836, 42836), (42838, 42838), (42840, 42840),
     (42842, 42842), (42844, 42844), (42846, 42846), (42848, 42848), (42850, 42850),
     (42852, 42852), (42854, 42854), (42856, 42856), (42858, 42858), (42860, 42860),
     (42862, 42862), (42873, 42873), (42875, 42875), (42877, 42878), (42880, 42880),
     (42882, 42882), (42884, 42884), (42886, 42886), (42891, 42891), (42893, 42893),
     (42896, 42896), (42898, 42898), (42902, 42902), (42904, 42904), (42906, 42906),
     (42908, 42908), (42910, 42910), (42912, 42912), (42914, 42914), (42916, 42916),
     (42918, 42918), (42920, 42920), (42922, 42926), (42928, 42932), (42934, 42934),
     (42936, 42936), (42938, 42938), (42940, 42940), (42942, 42942), (42944, 42944),
     (42946, 42946), (42948, 42951), (42953, 42953), (42960, 42960), (42966, 42966),
     (42968, 42968), (42997, 42997), (65313, 65338), (66560, 66599), (66736, 66771),
     (66928, 66938), (66940, 66954), (66956, 66962), (66964, 66965), (68736, 68786),
     (71840, 71871), (93760, 93791), (119808, 119833), (119860, 119885), (119912, 119937),
     (119964, 119964), (119966, 119967), (119970, 119970), (119973, 119974), (119977, 119980),
     (119982, 119989), (120016, 120041), (120068, 120069), (120071, 120074), (120077, 120084),
     (120086, 120092), (120120, 120121), (120123, 120126), (120128, 120132), (120134, 120134),
     (120138, 120144), (120172, 120197), (120224, 120249), (120276, 120301), (120328, 120353),
     (120380, 120405), (120432, 120457), (120488, 120512), (120546, 120570), (120604, 120628),
     (120662, 120686), (120720, 120744), (120778, 120778), (125184, 125217), (127280, 127305),
     (127312, 127337), (127344, 127369)]"

definition is_upper_char :: "nat \<Rightarrow> bool" where
  "is_upper_char c \<longleftrightarrow>
     (if c < 256 then (65 \<le> c \<and> c \<le> 90) \<or> (192 \<le> c \<and> c \<le> 214) \<or> (216 \<le> c \<and> c \<le> 222)
      else in_ranges upper_ranges c)"

definition lower_title_ranges :: "(nat \<times> nat) list" where
  "lower_title_ranges =
    [(257, 257), (259, 259), (261, 261), (263, 263), (265, 265), (267, 267), (269, 269),
     (271, 271), (273, 273), (275, 275), (277, 277), (279, 279), (281, 281), (283, 283),
     (285, 285), (287, 287), (289, 289), (291, 291), (293, 293), (295, 295), (297, 297),
     (299, 299), (301, 301), (303, 303), (305, 305), (307, 307), (309, 309), (311, 312),
     (314, 314), (316, 316), (318, 318), (320, 320), (322, 322), (324, 324), (326, 326),
     (328, 329), (331, 331), (333, 333), (335, 335), (337, 337), (339, 339), (341, 341),
     (343, 343), (345, 345), (347, 347), (349, 349), (351, 351), (353, 353), (355, 355),
     (357, 357), (359, 359), (361, 361), (363, 363), (365, 365), (367, 367), (369, 369),
     (371, 371), (373, 373), (375, 375), (378, 378), (380, 380), (382, 384), (387, 387),
     (389, 389), (392, 392), (396, 397), (402, 402), (405, 405), (409, 411), (414, 414),
     (417, 417), (419, 419), (421, 421), (424, 424), (426, 427), (429, 429), (432, 432),
     (436, 436), (438, 438), (441, 442), (445, 447), (453, 454), (456, 457), (459, 460),
     (462, 462), (464, 464), (466, 466), (468, 468), (470, 470), (472, 472), (474, 474),
     (476, 477), (479, 479), (481, 481), (483, 483), (485, 485), (487, 487), (489, 489),
     (491, 491), (493, 493), (495, 496), (498, 499), (501, 501), (505, 505), (507, 507),
     (509, 509), (511, 511), (513, 513), (515, 515), (517, 517), (519, 519), (521, 521),
     (523, 523), (525, 525), (527, 527), (529, 529), (531, 531), (533, 533), (535, 535),
     (537, 537), (539, 539), (541, 541), (543, 543), (545, 545), (547, 547), (549, 549),
     (551, 551), (553, 553), (555, 555), (557, 557), (559, 559), (561, 561), (563, 569),
     (572, 572), (575, 576), (578, 578), (583, 583), (585, 585), (587, 587), (589, 589),
     (591, 659), (661, 696), (704, 705), (736, 740), (837, 837), (881, 881), (883, 883),
     (887, 887), (890, 893), (912, 912), (940, 974), (976, 977), (981, 983), (985, 985),
     (987, 987), (989, 989), (991, 991), (993, 993), (995, 995), (997, 997), (999, 999),
     (1001, 1001), (1003, 1003), (1005, 1005), (1007, 1011), (1013, 1013), (1016, 1016),
     (1019, 1020), (1072, 1119), (1121, 1121), (1123, 1123), (1125, 1125), (1127, 1127),
     (1129, 1129), (1131, 1131), (1133, 1133), (1135, 1135), (1137, 1137), (1139, 1139),
     (1141, 1141), (1143, 1143), (1145, 1145), (1147, 1147), (1149, 1149), (1151, 1151),
     (1153, 1153), (1163, 1163), (1165, 1165), (1167, 1167), (1169, 1169), (1171, 1171),
     (1173, 1173), (1175, 1175), (1177, 1177), (1179, 1179), (1181, 1181), (1183, 1183),
     (1185, 1185), (1187, 1187), (1189, 1189), (1191, 1191), (1193, 1193), (1195, 1195),
     (1197, 1197), (1199, 1199), (1201, 1201), (1203, 1203), (1205, 1205), (1207, 1207),
     (1209, 1209), (1211, 1211), (1213, 1213), (1215, 1215), (1218, 1218), (1220, 1220),
     (1222, 1222), (1224, 1224), (1226, 1226), (1228, 1228), (1230, 1231), (1233, 1233),
     (1235, 1235), (1237, 1237), (1239, 1239), (1241, 1241), (1243, 1243), (1245, 1245),
     (1247, 1247), (1249, 1249), (1251, 1251), (1253, 1253), (1255, 1255), (1257, 1257),
     (1259, 1259), (1261, 1261), (1263, 1263), (1265, 1265), (1267, 1267), (1269, 1269),
     (1271, 1271), (1273, 1273), (1275, 1275), (1277, 1277), (1279, 1279), (1281, 1281),
     (1283, 1283), (1285, 1285), (1287, 1287), (1289, 1289), (1291, 1291), (1293, 1293),
     (1295, 1295), (1297, 1297), (1299, 1299), (1301, 1301), (1303, 1303), (1305, 1305),
     (1307, 1307), (1309, 1309), (1311, 1311), (1313, 1313), (1315, 1315), (1317, 1317),
     (1319, 1319), (1321, 1321), (1323, 1323), (1325, 1325), (1327, 1327), (1376, 1416),
     (4304, 4346), (4349, 4351), (5112, 5117), (7296, 7304), (7424, 7615), (7681, 7681),
     (7683, 7683), (7685, 7685), (7687, 7687), (7689, 7689), (7691, 7691), (7693, 7693),
     (7695, 7695), (7697, 7697), (7699, 7699), (7701, 7701), (7703, 7703), (7705, 7705),
     (7707, 7707), (7709, 7709), (7711, 7711), (7713, 7713), (7715, 7715), (7717, 7717),
     (7719, 7719), (7721, 7721), (7723, 7723), (7725, 7725), (7727, 7727), (7729, 7729),
     (7731, 7731), (7733, 7733), (7735, 7735), (7737, 7737), (7739, 7739), (7741, 7741),
     (7743, 7743), (7745, 7745), (7747, 7747), (7749, 7749), (7751, 7751), (7753, 7753),
     (7755, 7755), (7757, 7757), (7759, 7759), (7761, 7761), (7763, 7763), (7765, 7765),
     (7767, 7767), (7769, 7769), (7771, 7771), (7773, 7773), (7775, 7775), (7777, 7777),
     (7779, 7779), (7781, 7781), (7783, 7783), (7785, 7785), (7787, 7787), (7789, 7789),
     (7791, 7791), (7793, 7793), (7795, 7795), (7797, 7797), (7799, 7799), (7801, 7801),
     (7803, 7803), (7805, 7805), (7807, 7807), (7809, 7809), (7811, 7811), (7813, 7813),
     (7815, 7815), (7817, 7817), (7819, 7819), (7821, 7821), (7823, 7823), (7825, 7825),
     (7827, 7827), (7829, 7837), (7839, 7839), (7841, 7841), (7843, 7843), (7845, 7845),
     (7847, 7847), (7849, 7849), (7851, 7851), (7853, 7853), (7855, 7855), (7857, 7857),
     (7859, 7859), (7861, 7861), (7863, 7863), (7865, 7865), (7867, 7867), (7869, 7869),
     (7871, 7871), (7873, 7873), (7875, 7875), (7877, 7877), (7879, 7879), (7881, 7881),
     (7883, 7883), (7885, 7885), (7887, 7887), (7889, 7889), (7891, 7891), (7893, 7893),
     (7895, 7895), (7897, 7897), (7899, 7899), (7901, 7901), (7903, 7903), (7905, 7905),
     (7907, 7907), (7909, 7909), (7911, 7911), (7913, 7913), (7915, 7915), (7917, 7917),
     (7919, 7919), (7921, 7921), (7923, 7923), (7925, 7925), (7927, 7927), (7929, 7929),
     (7931, 7931), (7933, 7933), (7935, 7943), (7952, 7957), (7968, 7975), (7984, 7991),
     (8000, 8005), (8016, 8023), (8032, 8039), (8048, 8061), (8064, 8116), (8118, 8119),
     (8124, 8124), (8126, 8126), (8130, 8132), (8134, 8135), (8140, 8140), (8144, 8147),
     (8150, 8151), (8160, 8167), (8178, 8180), (8182, 8183), (8188, 8188), (8305, 8305),
     (8319, 8319), (8336, 8348), (8458, 8458), (8462, 8463), (8467, 8467), (8495, 8495),
     (8500, 8500), (8505, 8505), (8508, 8509), (8518, 8521), (8526, 8526), (8560, 8575),
     (8580, 8580), (9424, 9449), (11312, 11359), (11361, 11361), (11365, 11366), (11368, 11368),
     (11370, 11370), (11372, 11372), (11377, 11377), (11379, 11380), (11382, 11389),
     (11393, 11393), (11395, 11395), (11397, 11397), (11399, 11399), (11401, 11401),
     (11403, 11403), (11405, 11405), (11407, 11407), (11409, 11409), (11411, 11411),
     (11413, 11413), (11415, 11415), (11417, 11417), (11419, 11419), (11421, 11421),
     (11423, 11423), (11425, 11425), (11427, 11427), (11429, 11429), (11431, 11431),
     (11433, 11433), (11435, 11435), (11437, 11437), (11439, 11439), (11441, 11441),
     (11443, 11443), (11445, 11445), (11447, 11447), (11449, 11449), (11451, 11451),
     (11453, 11453), (11455, 11455), (11457, 11457), (11459, 11459), (11461, 11461),
     (11463, 11463), (11465, 11465), (11467, 11467), (11469, 11469), (11471, 11471),
     (11473, 11473), (11475, 11475), (11477, 11477), (11479, 11479), (11481, 11481),
     (11483, 11483), (11485, 11485), (11487, 11487), (11489, 11489), (11491, 11492),
     (11500, 11500), (11502, 11502), (11507, 11507), (11520, 11557), (11559, 11559),
     (11565, 11565), (42561, 42561), (42563, 42563), (42565, 42565), (42567, 42567),
     (42569, 42569), (42571, 42571), (42573, 42573), (42575, 42575), (42577, 42577),
     (42579, 42579), (42581, 42581), (42583, 42583), (42585, 42585), (42587, 42587),
     (42589, 42589), (42591, 42591), (42593, 42593), (42595, 42595), (42597, 42597),
     (42599, 42599), (42601, 42601), (42603, 42603), (42605, 42605), (42625, 42625),
     (42627, 42627), (42629, 42629), (42631, 42631), (42633, 42633), (42635, 42635),
     (42637, 42637), (42639, 42639), (42641, 42641), (42643, 42643), (42645, 42645),
     (42647, 42647), (42649, 42649), (42651, 42653), (42787, 42787), (42789, 42789),
     (42791, 42791), (42793, 42793), (42795, 42795), (42797, 42797), (42799, 42801),
     (42803, 42803), (42805, 42805), (42807, 42807), (42809, 42809), (42811, 42811),
     (42813, 42813), (42815, 42815), (42817, 42817), (42819, 42819), (42821, 42821),
     (42823, 42823), (42825, 42825), (42827, 42827), (42829, 42829), (42831, 42831),
     (42833, 42833), (42835, 42835), (42837, 42837), (42839, 42839), (42841, 42841),
     (42843, 42843), (42845, 42845), (42847, 42847), (42849, 42849), (42851, 42851),
     (42853, 42853), (42855, 42855), (42857, 42857), (42859, 42859), (42861, 42861),
     (42863, 42872), (42874, 42874), (42876, 42876), (42879, 42879), (42881, 42881),
     (42883, 42883), (42885, 42885), (42887, 42887), (42892, 42892), (42894, 42894),
     (42897, 42897), (42899, 42901), (42903, 42903), (42905, 42905), (42907, 42907),
     (42909, 42909), (42911, 42911), (42913, 42913), (42915, 42915), (42917, 42917),
     (42919, 42919), (42921, 42921), (42927, 42927), (42933, 42933), (42935, 42935),
     (42937, 42937), (42939, 42939), (42941, 42941), (42943, 42943), (42945, 42945),
     (42947, 42947), (42952, 42952), (42954, 42954), (42961, 42961), (42963, 42963),
     (42965, 42965), (42967, 42967), (42969, 42969), (42998, 42998), (43000, 43002),
     (43824, 43866), (43868, 43880), (43888, 43967), (64256, 64262), (64275, 64279),
     (65345, 65370), (66600, 66639), (66776, 66811), (66967, 66977), (66979, 66993),
     (66995, 67001), (67003, 67004), (67456, 67456), (67459, 67461), (67463, 67504),
     (67506, 67514), (68800, 68850), (71872, 71903), (93792, 93823), (119834, 119859),
     (119886, 119892), (119894, 119911), (119938, 119963), (119990, 119993), (119995, 119995),
     (119997, 120003), (120005, 120015), (120042, 120067), (120094, 120119), (120146, 120171),
     (120198, 120223), (120250, 120275), (120302, 120327), (120354, 120379), (120406, 120431),
     (120458, 120485), (120514, 120538), (120540, 120545), (120572, 120596), (120598, 120603),
     (120630, 120654), (120656, 120661), (120688, 120712), (120714, 120719), (120746, 120770),
     (120772, 120777), (120779, 120779), (122624, 122633), (122635, 122654), (125218, 125251)]"

definition is_lower_char :: "nat \<Rightarrow> bool" where
  "is_lower_char c \<longleftrightarrow>
     (if c < 256
      then (97 \<le> c \<and> c \<le> 122) \<or> c = 170 \<or> c = 181 \<or> c = 186 \<or> (223 \<le> c \<and> c \<le> 246) \<or>
           (248 \<le> c \<and> c \<le> 255)
      else in_ranges lower_title_ranges c)"

text \<open>\<^verbatim>\<open>re.sub(r"\s+", " ", s)\<close>: every maximal run of whitespace becomes one space.\<close>

function re_sub_ws :: "pystr \<Rightarrow> pystr" where
  "re_sub_ws [] = []"
| "re_sub_ws (c # cs) =
     (if is_space c then 32 # re_sub_ws (dropWhile is_space cs) else c # re_sub_ws cs)"
  by pat_completeness auto
termination
  by (relation "measure length") (auto simp: less_Suc_eq_le length_dropWhile_le)

text \<open>\<^verbatim>\<open>str.strip()\<close>: whitespace removed at both ends.\<close>

definition strip :: "pystr \<Rightarrow> pystr" where
  "strip s = rev (dropWhile is_space (rev (dropWhile is_space s)))"

text \<open>\<^verbatim>\<open>clean_text\<close>: \<open>None\<close> is Python's \<^verbatim>\<open>None\<close>.\<close>

definition clean_text :: "pystr option \<Rightarrow> pystr" where
  "clean_text s = (case s of None \<Rightarrow> [] | Some x \<Rightarrow> strip (re_sub_ws x))"

text \<open>
  A string is normalized when its only whitespace is the single space, never
  two in a row, and none at either end.
\<close>

fun single_spaced :: "pystr \<Rightarrow> bool" where
  "single_spaced [] \<longleftrightarrow> True"
| "single_spaced [c] \<longleftrightarrow> (is_space c \<longrightarrow> c = 32)"
| "single_spaced (c # d # cs) \<longleftrightarrow>
     (is_space c \<longrightarrow> c = 32 \<and> \<not> is_space d) \<and> single_spaced (d # cs)"

definition normalized :: "pystr \<Rightarrow> bool" where
  "normalized s \<longleftrightarrow>
     single_spaced s \<and> (s \<noteq> [] \<longrightarrow> \<not> is_space (hd s) \<and> \<not> is_space (last s))"

section \<open>Regular expressions and string tests of the extractor\<close>

text \<open>\<^verbatim>\<open>"$" in s\<close>, \<^verbatim>\<open>"%" in s\<close>, and the two helpers built on them.\<close>

definition has_dollar :: "pystr \<Rightarrow> bool" where
  "has_dollar s \<longleftrightarrow> 36 \<in> set s"

definition has_percent :: "pystr \<Rightarrow> bool" where
  "has_percent s \<longleftrightarrow> 37 \<in> set s"

definition likely_money :: "pystr \<Rightarrow> bool" where
  "likely_money s \<longleftrightarrow> s \<noteq> [] \<and> has_dollar s"

definition likely_percent :: "pystr \<Rightarrow> bool" where
  "likely_percent s \<longleftrightarrow> s \<noteq> [] \<and> has_percent s"

text \<open>\<^verbatim>\<open>sub in s\<close> for strings.\<close>

fun contains :: "pystr \<Rightarrow> pystr \<Rightarrow> bool" where
  "contains sub [] \<longleftrightarrow> sub = []"
| "contains sub (c # cs) \<longleftrightarrow> prefix sub (c # cs) \<or> contains sub cs"

text \<open>Python's \<^verbatim>\<open>a or b\<close> on strings.\<close>

definition py_or :: "pystr \<Rightarrow> pystr \<Rightarrow> pystr" where
  "py_or a b = (if a \<noteq> [] then a else b)"

text \<open>
  \<^verbatim>\<open>re.match(r"^\s*(\d{1,4})\b", t)\<close>, giving group 1. The digits taken are the whole
  leading run: a run of five or more has no word boundary after its fourth digit, and a
  run followed by a word character has none at its end.
\<close>

definition match_rank :: "pystr \<Rightarrow> pystr option" where
  "match_rank t =
     (let rest = dropWhile is_space t;
          ds = takeWhile is_digit rest;
          after = dropWhile is_digit rest
      in if 1 \<le> length ds \<and> length ds \<le> 4 \<and>
            (case after of [] \<Rightarrow> True | c # _ \<Rightarrow> \<not> is_word c)
         then Some ds else None)"

text \<open>\<^verbatim>\<open>re.sub(r"[\(\)]", "", sym)\<close>.\<close>

definition remove_parens :: "pystr \<Rightarrow> pystr" where
  "remove_parens s = filter (\<lambda>c. c \<noteq> 40 \<and> c \<noteq> 41) s"

text \<open>\<^verbatim>\<open>re.search(r"[A-Za-z]", t)\<close>.\<close>

definition search_letter :: "pystr \<Rightarrow> bool" where
  "search_letter t \<longleftrightarrow> list_ex is_ascii_letter t"

text \<open>
  The separator \<^verbatim>\<open>\s{2,}|\s?\n\s?|\s\<bullet>\s\<close> (the bullet is \<^verbatim>\<open>U+2022\<close>, 8226) tried at
  the head of a string: the length of the match, 0 when there is none. The alternatives
  are tried in the order written; \<^verbatim>\<open>\s?\<close> first takes a whitespace character and gives
  it back when the rest then fails.
\<close>

definition opt_space_len :: "pystr \<Rightarrow> nat" where
  "opt_space_len s = (case s of [] \<Rightarrow> 0 | c # _ \<Rightarrow> if is_space c then 1 else 0)"

definition newline_then :: "pystr \<Rightarrow> nat option" where
  "newline_then s =
     (case s of [] \<Rightarrow> None | c # r \<Rightarrow> if c = 10 then Some (1 + opt_space_len r) else None)"

definition alt_newline :: "pystr \<Rightarrow> nat option" where
  "alt_newline s =
     (case s of
        [] \<Rightarrow> None
      | c # r \<Rightarrow>
          if is_space c
          then (case newline_then r of Some k \<Rightarrow> Some (1 + k) | None \<Rightarrow> newline_then s)
          else newline_then s)"

definition alt_bullet :: "pystr \<Rightarrow> bool" where
  "alt_bullet s \<longleftrightarrow>
     (case s of a # b # c # _ \<Rightarrow> is_space a \<and> b = 8226 \<and> is_space c | _ \<Rightarrow> False)"

definition sep_len :: "pystr \<Rightarrow> nat" where
  "sep_len s =
     (let n = length (takeWhile is_space s)
      in if 2 \<le> n then n
         else case alt_newline s of
                Some k \<Rightarrow> k
              | None \<Rightarrow> if alt_bullet s then 3 else 0)"

text \<open>
  \<^verbatim>\<open>re.split\<close> on that separator: \<open>acc\<close> is the piece being read. No alternative
  matches the empty string, so every split consumes input.
\<close>

function re_split_from :: "pystr \<Rightarrow> pystr \<Rightarrow> pystr list" where
  "re_split_from acc [] = [acc]"
| "re_split_from acc (c # cs) =
     (let k = sep_len (c # cs)
      in if 0 < k then acc # re_split_from [] (drop k (c # cs))
         else re_split_from (acc @ [c]) cs)"
  by pat_completeness auto
termination
  by (relation "measure (\<lambda>(acc, s). length s)") auto

definition re_split_sep :: "pystr \<Rightarrow> pystr list" where
  "re_split_sep t = re_split_from [] t"

text \<open>
  \<^verbatim>\<open>re.match(r"^(.+?)\s+([A-Z]{2,6})$", p)\<close>, giving groups 1 and 2. \<open>tail_symbol\<close> is
  \<^verbatim>\<open>\s+([A-Z]{2,6})$\<close> at the head of a string (\<^verbatim>\<open>$\<close> also matches before a final
  newline); the lazy group 1 grows one character at a time, never over a newline, until
  the tail matches.
\<close>

definition tail_symbol :: "pystr \<Rightarrow> pystr option" where
  "tail_symbol s =
     (let w = takeWhile is_space s;
          r = dropWhile is_space s;
          g = takeWhile is_ascii_upper r;
          e = dropWhile is_ascii_upper r
      in if w \<noteq> [] \<and> 2 \<le> length g \<and> length g \<le> 6 \<and> (e = [] \<or> e = [10])
         then Some g else None)"

fun lazy_name :: "pystr \<Rightarrow> pystr \<Rightarrow> (pystr \<times> pystr) option" where
  "lazy_name g [] = None"
| "lazy_name g (c # cs) =
     (case tail_symbol (c # cs) of
        Some tick \<Rightarrow> Some (g, tick)
      | None \<Rightarrow> if c = 10 then None else lazy_name (g @ [c]) cs)"

definition match_name_symbol :: "pystr \<Rightarrow> (pystr \<times> pystr) option" where
  "match_name_symbol p =
     (case p of [] \<Rightarrow> None | c # cs \<Rightarrow> if c = 10 then None else lazy_name [c] cs)"

text \<open>\<^verbatim>\<open>str.isupper()\<close>: no lowercase or titlecase character and at least one uppercase
  one.\<close>

definition py_isupper :: "pystr \<Rightarrow> bool" where
  "py_isupper p \<longleftrightarrow> \<not> list_ex is_lower_char p \<and> list_ex is_upper_char p"

text \<open>\<^verbatim>\<open>str.split()\<close> without arguments: the words between runs of whitespace.\<close>

function py_split :: "pystr \<Rightarrow> pystr list" where
  "py_split s =
     (let r = dropWhile is_space s
      in if r = [] then []
         else takeWhile (\<lambda>c. \<not> is_space c) r # py_split (dropWhile (\<lambda>c. \<not> is_space c) r))"
  by pat_completeness auto
termination
proof (relation "measure length", goal_cases)
  case 1
  show ?case by simp
next
  case (2 s r)
  then have r: "r = dropWhile is_space s" "r \<noteq> []"
    by simp_all
  then have "\<not> is_space (hd r)"
    using hd_dropWhile [of is_space s] by simp
  with r(2) have "length (dropWhile (\<lambda>c. \<not> is_space c) r) < length r"
    by (cases r) (simp_all add: less_Suc_eq_le length_dropWhile_le)
  moreover have "length r \<le> length s"
    using r(1) by (simp add: length_dropWhile_le)
  ultimately show ?case by simp
qed

text \<open>
  \<^verbatim>\<open>re.search(r"-?\d+(\.\d+)?%", t)\<close> as a truth value. \<open>digits_percent\<close> is
  \<^verbatim>\<open>\d+(\.\d+)?%\<close> at the head of a string, \<open>change_at\<close> the whole pattern there.
\<close>

definition digits_percent :: "pystr \<Rightarrow> bool" where
  "digits_percent s \<longleftrightarrow>
     (let d = takeWhile is_digit s; r = dropWhile is_digit s
      in d \<noteq> [] \<and>
         (case r of
            [] \<Rightarrow> False
          | c # r' \<Rightarrow>
              (c = 46 \<and>
               (let d2 = takeWhile is_digit r'; r2 = dropWhile is_digit r'
                in d2 \<noteq> [] \<and> (case r2 of [] \<Rightarrow> False | c2 # _ \<Rightarrow> c2 = 37)))
              \<or> c = 37))"

definition change_at :: "pystr \<Rightarrow> bool" where
  "change_at s \<longleftrightarrow>
     (case s of [] \<Rightarrow> False | c # cs \<Rightarrow> (c = 45 \<and> digits_percent cs) \<or> digits_percent s)"

fun search_change :: "pystr \<Rightarrow> bool" where
  "search_change [] \<longleftrightarrow> False"
| "search_change (c # cs) \<longleftrightarrow> change_at (c # cs) \<or> search_change cs"

text \<open>\<^verbatim>\<open>re.search(r"\d[\d,\.]*\s*[A-Za-z]{1,6}", t)\<close> as a truth value.\<close>

definition circ_at :: "pystr \<Rightarrow> bool" where
  "circ_at s \<longleftrightarrow>
     (case s of
        [] \<Rightarrow> False
      | c # cs \<Rightarrow>
          is_digit c \<and>
          (case dropWhile is_space (dropWhile (\<lambda>x. is_digit x \<or> x = 44 \<or> x = 46) cs) of
             [] \<Rightarrow> False
           | l # _ \<Rightarrow> is_ascii_letter l))"

fun search_circ :: "pystr \<Rightarrow> bool" where
  "search_circ [] \<longleftrightarrow> False"
| "search_circ (c # cs) \<longleftrightarrow> circ_at (c # cs) \<or> search_circ cs"

text \<open>
  \<^verbatim>\<open>sorted(xs, key=len, reverse=True)\<close> and \<^verbatim>\<open>xs.sort(key=len, reverse=True)\<close>:
  CPython reverses the list, sorts it stably by ascending key, and reverses the result,
  so that equal keys keep their order.
\<close>

definition sort_len_desc :: "pystr list \<Rightarrow> pystr list" where
  "sort_len_desc xs = rev (sort_key length (rev xs))"

section \<open>The row provider\<close>

text \<open>
  Every awaited call on a Playwright locator may raise. \<open>exn\<close> is the class
  \<^verbatim>\<open>Exception\<close>, of which only \<^verbatim>\<open>PlaywrightTimeoutError\<close> is told apart by the
  source. A \<open>row\<close> is what the locator of one \<^verbatim>\<open><tr>\<close> answers to the calls of
  \<^verbatim>\<open>extract_from_row\<close>; \<^verbatim>\<open>text_content\<close> gives a string or \<^verbatim>\<open>None\<close>.
\<close>

datatype exn = PlaywrightTimeoutError | OtherException

record row =
  td_count :: "exn + nat"
  td_text :: "nat \<Rightarrow> exn + pystr option"
  name_count :: "exn + nat"
  name_text :: "exn + pystr option"
  sym_count :: "exn + nat"
  sym_text :: "exn + pystr option"
  price_count :: "exn + nat"
  price_text :: "exn + pystr option"

text \<open>\<^verbatim>\<open>safe_text\<close>: the text of a locator, cleaned, or the empty string when the call raises.\<close>

definition safe_text :: "exn + pystr option \<Rightarrow> pystr" where
  "safe_text r = (case r of Inr txt \<Rightarrow> clean_text txt | Inl e \<Rightarrow> [])"

section \<open>The row extractor\<close>

text \<open>The dictionary \<^verbatim>\<open>data\<close> with its eight keys.\<close>

record coin =
  rank :: pystr
  name :: pystr
  symbol :: pystr
  price :: pystr
  change_24h :: pystr
  market_cap :: pystr
  volume_24h :: pystr
  circulating_supply :: pystr

definition empty_coin :: coin where
  "empty_coin = \<lparr>rank = [], name = [], symbol = [], price = [], change_24h = [],
     market_cap = [], volume_24h = [], circulating_supply = []\<rparr>"

text \<open>The cell texts; a failing \<^verbatim>\<open>count()\<close> leaves the list empty.\<close>

definition collect_tds :: "row \<Rightarrow> pystr list" where
  "collect_tds r =
     (case td_count r of
        Inl e \<Rightarrow> []
      | Inr n \<Rightarrow> map (\<lambda>i. clean_text (Some (safe_text (td_text r i)))) [0..<n])"

text \<open>1) Rank: the first of the first three cells that starts with one to four digits.\<close>

fun find_rank :: "pystr list \<Rightarrow> pystr" where
  "find_rank [] = []"
| "find_rank (t # ts) = (case match_rank t of Some g \<Rightarrow> g | None \<Rightarrow> find_rank ts)"

definition rank_of :: "pystr list \<Rightarrow> pystr" where
  "rank_of tds = (if tds \<noteq> [] then find_rank (take 3 tds) else [])"

text \<open>
  2) Name and symbol from the sub-elements of the row. The two lookups share one
  \<^verbatim>\<open>try\<close>: when the name lookup raises, the symbol lookup is not attempted; when the
  symbol lookup raises, a name already stored stays.
\<close>

definition hint_name :: "row \<Rightarrow> coin \<Rightarrow> exn + coin" where
  "hint_name r d =
     (case name_count r of
        Inl e \<Rightarrow> Inl e
      | Inr n \<Rightarrow>
          if 0 < n
          then (case name_text r of
                  Inl e \<Rightarrow> Inl e
                | Inr txt \<Rightarrow>
                    let t = clean_text txt in Inr (if t \<noteq> [] then d\<lparr>name := t\<rparr> else d))
          else Inr d)"

definition hint_symbol :: "row \<Rightarrow> coin \<Rightarrow> exn + coin" where
  "hint_symbol r d =
     (case sym_count r of
        Inl e \<Rightarrow> Inl e
      | Inr n \<Rightarrow>
          if 0 < n
          then (case sym_text r of
                  Inl e \<Rightarrow> Inl e
                | Inr txt \<Rightarrow>
                    let s = remove_parens (clean_text txt)
                    in Inr (if 1 < length s \<and> length s \<le> 10 then d\<lparr>symbol := s\<rparr> else d))
          else Inr d)"

definition hints :: "row \<Rightarrow> coin \<Rightarrow> coin" where
  "hints r d =
     (case hint_name r d of
        Inl e \<Rightarrow> d
      | Inr d1 \<Rightarrow> (case hint_symbol r d1 of Inl e \<Rightarrow> d1 | Inr d2 \<Rightarrow> d2))"

text \<open>
  The fallback over the cell texts. \<open>fallback_parts\<close> is the loop over the parts of one
  cell, left by \<^verbatim>\<open>break\<close> after a part of the form name and symbol;
  \<open>fallback_tds\<close> is the loop over the cells.
\<close>

fun fallback_parts :: "pystr list \<Rightarrow> coin \<Rightarrow> coin" where
  "fallback_parts [] d = d"
| "fallback_parts (p0 # ps) d =
     (let p = strip p0
      in if 1 < length p \<and> \<not> likely_money p \<and> \<not> likely_percent p
         then (case match_name_symbol p of
                 Some (g1, g2) \<Rightarrow>
                   (let d1 = d\<lparr>name := py_or (name d) (strip g1)\<rparr>
                    in d1\<lparr>symbol := py_or (symbol d1) (strip g2)\<rparr>)
               | None \<Rightarrow>
                   fallback_parts ps
                     (if py_isupper p \<and> 2 \<le> length p \<and> length p \<le> 6
                      then d\<lparr>symbol := py_or (symbol d) p\<rparr>
                      else if length (py_split p) \<le> 3 \<and> name d = []
                      then d\<lparr>name := p\<rparr>
                      else d))
         else fallback_parts ps d)"

fun fallback_tds :: "pystr list \<Rightarrow> coin \<Rightarrow> coin" where
  "fallback_tds [] d = d"
| "fallback_tds (t # ts) d =
     fallback_tds ts
       (if t \<noteq> [] \<and> search_letter t then fallback_parts (re_split_sep t) d else d)"

definition fallback :: "pystr list \<Rightarrow> coin \<Rightarrow> coin" where
  "fallback tds d = (if name d = [] \<or> symbol d = [] then fallback_tds tds d else d)"

text \<open>3) Price: the first cell with a dollar sign and fewer than 20 characters, else the
  text of the price sub-element.\<close>

fun find_price :: "pystr list \<Rightarrow> pystr" where
  "find_price [] = []"
| "find_price (t # ts) = (if has_dollar t \<and> length t < 20 then t else find_price ts)"

definition hint_price :: "row \<Rightarrow> coin \<Rightarrow> coin" where
  "hint_price r d =
     (case price_count r of
        Inl e \<Rightarrow> d
      | Inr n \<Rightarrow>
          if 0 < n
          then (case price_text r of Inl e \<Rightarrow> d | Inr txt \<Rightarrow> d\<lparr>price := clean_text txt\<rparr>)
          else d)"

definition price_step :: "row \<Rightarrow> pystr list \<Rightarrow> coin \<Rightarrow> coin" where
  "price_step r tds d =
     (let d1 = (if tds \<noteq> [] then d\<lparr>price := py_or (find_price tds) (price d)\<rparr> else d)
      in if price d1 = [] then hint_price r d1 else d1)"

text \<open>4) 24h change: the first cell with a percent sign in which the pattern is found.\<close>

fun find_change :: "pystr list \<Rightarrow> pystr" where
  "find_change [] = []"
| "find_change (t # ts) = (if has_percent t \<and> search_change t then t else find_change ts)"

definition change_of :: "pystr list \<Rightarrow> pystr" where
  "change_of tds = (if tds \<noteq> [] then find_change tds else [])"

text \<open>5) Market cap: the longest cell with a dollar sign and more than 6 characters.\<close>

definition market_cap_candidates :: "pystr list \<Rightarrow> pystr list" where
  "market_cap_candidates tds = filter (\<lambda>t. has_dollar t \<and> 6 < length t) tds"

definition market_cap_of :: "pystr list \<Rightarrow> pystr" where
  "market_cap_of tds =
     (if tds \<noteq> []
      then (case sort_len_desc (market_cap_candidates tds) of [] \<Rightarrow> [] | c # _ \<Rightarrow> c)
      else [])"

text \<open>6) 24h volume: the second of the cells with a dollar sign, longest first.\<close>

definition dollar_values :: "pystr list \<Rightarrow> pystr list" where
  "dollar_values tds = filter has_dollar tds"

definition volume_of :: "pystr list \<Rightarrow> pystr" where
  "volume_of tds =
     (if tds \<noteq> []
      then (let dv = dollar_values tds
            in if dv \<noteq> []
               then (let sorted_dollars = sort_len_desc dv
                     in if 2 \<le> length sorted_dollars then sorted_dollars ! 1
                        else [])
               else [])
      else [])"

text \<open>7) Circulating supply: the first cell with a number and a short word, without
  dollar sign and without the label.\<close>

fun find_circ :: "pystr list \<Rightarrow> pystr" where
  "find_circ [] = []"
| "find_circ (t # ts) =
     (if t \<noteq> [] \<and> search_circ t \<and> \<not> contains (py ''Market Cap'') t \<and> \<not> has_dollar t
      then t else find_circ ts)"

text \<open>The final pass of \<^verbatim>\<open>clean_text\<close> over all eight values.\<close>

definition cleanup :: "coin \<Rightarrow> coin" where
  "cleanup d =
     \<lparr>rank = clean_text (Some (rank d)), name = clean_text (Some (name d)),
      symbol = clean_text (Some (symbol d)), price = clean_text (Some (price d)),
      change_24h = clean_text (Some (change_24h d)),
      market_cap = clean_text (Some (market_cap d)),
      volume_24h = clean_text (Some (volume_24h d)),
      circulating_supply = clean_text (Some (circulating_supply d))\<rparr>"

text \<open>
  The body of the outer \<^verbatim>\<open>try\<close>. Each awaited call in it stands inside a \<^verbatim>\<open>try\<close> of
  its own (\<open>collect_tds\<close>, \<open>hints\<close>, \<open>hint_price\<close>), and the steps between them work on
  strings alone.
\<close>

definition extract_fields :: "row \<Rightarrow> coin" where
  "extract_fields r =
     (let tds = collect_tds r;
          d1 = empty_coin\<lparr>rank := rank_of tds\<rparr>;
          d2 = hints r d1;
          d3 = fallback tds d2;
          d4 = price_step r tds d3;
          d5 = d4\<lparr>change_24h := change_of tds\<rparr>;
          d6 = d5\<lparr>market_cap := market_cap_of tds\<rparr>;
          d7 = d6\<lparr>volume_24h := volume_of tds\<rparr>
      in d7\<lparr>circulating_supply := find_circ tds\<rparr>)"

text \<open>\<^verbatim>\<open>extract_from_row\<close>: \<open>Inl\<close> would be an exception leaving the function.\<close>

definition extract_from_row :: "row \<Rightarrow> exn + coin" where
  "extract_from_row r = Inr (cleanup (extract_fields r))"

section \<open>The collection loop\<close>

definition TARGET_COUNT :: int where
  "TARGET_COUNT = 20"

definition MAX_PAGE_NAVIGATIONS :: nat where
  "MAX_PAGE_NAVIGATIONS = 5"

text \<open>
  A \<open>page\<close> is what the browser answers while one page of the table is shown: the
  number of rows, the rows, and the outcome of each call on the Next control. A \<open>site\<close>
  is a whole run: the start of the browser, the first load (\<^verbatim>\<open>goto\<close> and the wait for
  the rows, one \<^verbatim>\<open>try\<close>), the page shown after each completed pagination, and the
  closing of the browser.
\<close>

record page =
  row_count :: "exn + nat"
  row_at :: "nat \<Rightarrow> row"
  next_count :: "exn + nat"
  next_enabled :: "exn + bool"
  next_click :: "exn + unit"
  wait_rows :: "exn + unit"

record site =
  launch :: "exn + unit"
  goto :: "exn + unit"
  pages :: "nat \<Rightarrow> page"
  close :: "exn + unit"

text \<open>
  The loop over the rows of one page. A row is dropped when rank, name and price are
  all empty, or when its rank or its name is already among the results.
\<close>

fun scan_rows :: "int \<Rightarrow> page \<Rightarrow> nat list \<Rightarrow> coin list \<Rightarrow> coin list" where
  "scan_rows tc pg [] rs = rs"
| "scan_rows tc pg (i # is) rs =
     (if tc \<le> int (length rs) then rs
      else case extract_from_row (row_at pg i) of
             Inl e \<Rightarrow> scan_rows tc pg is rs
           | Inr d \<Rightarrow>
               if name d = [] \<and> price d = [] \<and> rank d = [] then scan_rows tc pg is rs
               else if rank d \<noteq> [] \<and> list_ex (\<lambda>r. rank r = rank d) rs
               then scan_rows tc pg is rs
               else if name d \<noteq> [] \<and> list_ex (\<lambda>r. name r = name d) rs
               then scan_rows tc pg is rs
               else scan_rows tc pg is (rs @ [d]))"

text \<open>
  The pagination attempt: the number of clicks made on Next (0 or 1) and whether the
  loop goes on. Any exception ends the loop.
\<close>

definition paginate :: "page \<Rightarrow> nat \<times> bool" where
  "paginate pg =
     (case next_count pg of
        Inl e \<Rightarrow> (0, False)
      | Inr n \<Rightarrow>
          if 0 < n
          then (case next_enabled pg of
                  Inl e \<Rightarrow> (0, False)
                | Inr b \<Rightarrow>
                    if b
                    then (case next_click pg of
                            Inl e \<Rightarrow> (1, False)
                          | Inr _ \<Rightarrow>
                              (case wait_rows pg of
                                 Inl e \<Rightarrow> (1, False)
                               | Inr _ \<Rightarrow> (1, True)))
                    else (0, False))
          else (0, False))"

text \<open>
  The state of the \<^verbatim>\<open>while\<close> loop: \<open>results\<close> and \<open>navigations\<close> are the variables
  of the source; \<open>page_no\<close> counts the completed paginations and selects the page shown;
  \<open>clicks\<close> counts the clicks made on Next.
\<close>

record loop_state =
  results :: "coin list"
  navigations :: nat
  page_no :: nat
  clicks :: nat

definition rows_on :: "page \<Rightarrow> nat" where
  "rows_on pg = (case row_count pg of Inl e \<Rightarrow> 0 | Inr n \<Rightarrow> n)"

function while_loop :: "site \<Rightarrow> int \<Rightarrow> loop_state \<Rightarrow> loop_state" where
  "while_loop w tc s =
     (if int (length (results s)) < tc \<and> navigations s < MAX_PAGE_NAVIGATIONS
      then (let pg = pages w (page_no s);
                rs = scan_rows tc pg [0..<rows_on pg] (results s);
                s1 = s\<lparr>results := rs, navigations := navigations s + 1\<rparr>
            in if int (length rs) < tc
               then (let (k, go) = paginate pg;
                         s2 = s1\<lparr>clicks := clicks s1 + k\<rparr>
                     in if go then while_loop w tc (s2\<lparr>page_no := page_no s2 + 1\<rparr>)
                        else s2)
               else while_loop w tc s1)
      else s)"
  by pat_completeness auto
termination
  by (relation "measure (\<lambda>(w, tc, s). MAX_PAGE_NAVIGATIONS - navigations s)") auto

declare while_loop.simps [simp del]

text \<open>\<^verbatim>\<open>xs[:k]\<close> for a Python integer \<open>k\<close>; a negative \<open>k\<close> counts from the end.\<close>

definition slice_to :: "'a list \<Rightarrow> int \<Rightarrow> 'a list" where
  "slice_to xs k = (if 0 \<le> k then take (nat k) xs else take (nat (int (length xs) + k)) xs)"

definition initial_state :: loop_state where
  "initial_state = \<lparr>results = [], navigations = 0, page_no = 0, clicks = 0\<rparr>"

text \<open>
  \<^verbatim>\<open>scrape_top_n\<close>. An exception while the browser starts or closes leaves the
  function; a timeout of the first load is logged and the loop runs; any other exception
  of the first load closes the browser and returns the empty results.
\<close>

definition scrape_top_n :: "site \<Rightarrow> int \<Rightarrow> exn + coin list" where
  "scrape_top_n w tc =
     (case launch w of
        Inl e \<Rightarrow> Inl e
      | Inr _ \<Rightarrow>
          (case goto w of
             Inl OtherException \<Rightarrow> (case close w of Inl e \<Rightarrow> Inl e | Inr _ \<Rightarrow> Inr [])
           | _ \<Rightarrow>
               (let s = while_loop w tc initial_state
                in case close w of
                     Inl e \<Rightarrow> Inl e
                   | Inr _ \<Rightarrow> Inr (slice_to (results s) tc))))"

text \<open>The invariant of the results: the non-empty ranks are pairwise different, and so
  are the non-empty names.\<close>

definition dedup_inv :: "coin list \<Rightarrow> bool" where
  "dedup_inv rs \<longleftrightarrow>
     distinct (filter (\<lambda>x. x \<noteq> []) (map rank rs)) \<and>
     distinct (filter (\<lambda>x. x \<noteq> []) (map name rs))"

text \<open>The acceptance gate: rank, name and price are not all empty.\<close>

definition usable :: "coin \<Rightarrow> bool" where
  "usable d \<longleftrightarrow> \<not> (name d = [] \<and> price d = [] \<and> rank d = [])"

section \<open>Sample providers\<close>

text \<open>
  \<open>cells_row ts\<close> is a row whose cells hold the texts \<open>ts\<close> and in which none of the
  sub-element lookups finds an element; in \<open>failing_row\<close> every call raises.
\<close>

definition cells_row :: "string list \<Rightarrow> row" where
  "cells_row ts =
     \<lparr>td_count = Inr (length ts),
      td_text = (\<lambda>i. if i < length ts then Inr (Some (py (ts ! i))) else Inl OtherException),
      name_count = Inr 0, name_text = Inr None,
      sym_count = Inr 0, sym_text = Inr None,
      price_count = Inr 0, price_text = Inr None\<rparr>"

definition failing_row :: row where
  "failing_row =
     \<lparr>td_count = Inl PlaywrightTimeoutError,
      td_text = (\<lambda>i. Inl PlaywrightTimeoutError),
      name_count = Inl OtherException, name_text = Inl OtherException,
      sym_count = Inl OtherException, sym_text = Inl OtherException,
      price_count = Inl OtherException, price_text = Inl OtherException\<rparr>"

text \<open>
  A row of two cells in which the text of the second cell and the texts of the name, the
  symbol and the price sub-elements cannot be read.
\<close>

definition partly_failing_row :: row where
  "partly_failing_row =
     \<lparr>td_count = Inr 2,
      td_text = (\<lambda>i. if i = 0 then Inr (Some (py ''Bitcoin BTC''))
                    else Inl PlaywrightTimeoutError),
      name_count = Inr 1, name_text = Inl OtherException,
      sym_count = Inr 1, sym_text = Inl OtherException,
      price_count = Inr 1, price_text = Inl PlaywrightTimeoutError\<rparr>"

text \<open>
  \<open>rows_page rs nxt\<close> shows the rows \<open>rs\<close>; its Next control exists and works when
  \<open>nxt\<close> holds and is absent otherwise. \<open>pages_site ps\<close> starts without error and shows
  the pages \<open>ps\<close> in turn, the last one again after the end of the list.
\<close>

definition rows_page :: "row list \<Rightarrow> bool \<Rightarrow> page" where
  "rows_page rs nxt =
     \<lparr>row_count = Inr (length rs),
      row_at = (\<lambda>i. if i < length rs then rs ! i else failing_row),
      next_count = Inr (if nxt then 1 else 0),
      next_enabled = Inr nxt,
      next_click = Inr (),
      wait_rows = Inr ()\<rparr>"

definition pages_site :: "page list \<Rightarrow> site" where
  "pages_site ps =
     \<lparr>launch = Inr (), goto = Inr (),
      pages = (\<lambda>k. if k < length ps then ps ! k else rows_page [] False),
      close = Inr ()\<rparr>"

text \<open>
  A well-formed row and the record read from it, and a row that holds nothing but a
  change of price.
\<close>

definition bitcoin_row :: row where
  "bitcoin_row = cells_row [''1'', ''Bitcoin BTC'', ''$5'']"

definition bitcoin :: coin where
  "bitcoin = \<lparr>rank = py ''1'', name = py ''Bitcoin'', symbol = py ''BTC'', price = py ''$5'',
     change_24h = [], market_cap = [], volume_24h = [], circulating_supply = []\<rparr>"

definition change_only_row :: row where
  "change_only_row = cells_row [''+5%'']"

text \<open>
  Rows for the classifiers: a cell with a dollar sign and a percentage; a name with its
  symbol, a symbol alone, and two names with their symbols; dollar amounts of at most six
  characters; and two dollar amounts of the same length after a short one.
\<close>

definition dollar_percent_row :: row where
  "dollar_percent_row = cells_row [''$1 5%'']"

definition name_symbol_row :: row where
  "name_symbol_row = cells_row [''Bitcoin BTC'']"

definition xrp_row :: row where
  "xrp_row = cells_row [''XRP'']"

definition two_names_row :: row where
  "two_names_row = cells_row [''Bitcoin BTC'', ''Ethereum ETH'']"

definition short_dollars_row :: row where
  "short_dollars_row = cells_row [''$1'', ''$22'', ''$333'']"

definition tied_caps_row :: row where
  "tied_caps_row = cells_row [''$12'', ''$1234567'', ''$7654321'']"

text \<open>
  The well-formed row under another rank and price, and the runs of the loop: one page
  with the well-formed row; an empty first page with a working Next control before that
  page; a page that repeats the well-formed row; and a page whose first row holds nothing
  but a change of price.
\<close>

definition renumbered_row :: row where
  "renumbered_row = cells_row [''2'', ''Bitcoin BTC'', ''$6'']"

definition one_page_site :: site where
  "one_page_site = pages_site [rows_page [bitcoin_row] False]"

definition empty_first_page_site :: site where
  "empty_first_page_site = pages_site [rows_page [] True, rows_page [bitcoin_row] False]"

definition duplicate_site :: site where
  "duplicate_site = pages_site [rows_page [bitcoin_row, bitcoin_row, renumbered_row] False]"

definition gated_site :: site where
  "gated_site = pages_site [rows_page [change_only_row, bitcoin_row] False]"

section \<open>Evaluation\<close>

text \<open>The definitions that the simplifier unfolds to run the model on a given input.\<close>

lemmas char_defs = is_space_def is_digit_def is_ascii_upper_def is_ascii_letter_def is_word_def
  is_upper_char_def is_lower_char_def

lemmas string_defs = py_def clean_text_def strip_def has_dollar_def has_percent_def
  likely_money_def likely_percent_def py_or_def match_rank_def remove_parens_def
  search_letter_def opt_space_len_def newline_then_def alt_newline_def alt_bullet_def
  sep_len_def re_split_sep_def tail_symbol_def match_name_symbol_def py_isupper_def
  digits_percent_def change_at_def circ_at_def sort_len_desc_def

lemmas extract_defs = safe_text_def empty_coin_def collect_tds_def rank_of_def hint_name_def
  hint_symbol_def hints_def fallback_def hint_price_def price_step_def change_of_def
  market_cap_candidates_def market_cap_of_def dollar_values_def volume_of_def cleanup_def
  extract_fields_def extract_from_row_def

lemma extract_bitcoin_row: "extract_from_row bitcoin_row = Inr bitcoin"
  by (simp add: bitcoin_row_def bitcoin_def cells_row_def char_defs string_defs extract_defs
      Let_def py_split.simps)

lemma extract_change_only_row:
  "extract_from_row change_only_row = Inr (empty_coin\<lparr>change_24h := py ''+5%''\<rparr>)"
  by (simp add: change_only_row_def cells_row_def char_defs string_defs extract_defs
      Let_def py_split.simps)

lemma extract_partly_failing_row:
  "extract_from_row partly_failing_row =
     Inr (empty_coin\<lparr>name := py ''Bitcoin'', symbol := py ''BTC''\<rparr>)"
  by (simp add: partly_failing_row_def char_defs string_defs extract_defs
      Let_def py_split.simps upt_rec)

text \<open>The extractor on the sample rows.\<close>

lemmas run_defs = cells_row_def char_defs string_defs extract_defs Let_def py_split.simps

lemma extract_dollar_percent_row:
  "extract_from_row dollar_percent_row =
     Inr (empty_coin\<lparr>price := py ''$1 5%'', change_24h := py ''$1 5%''\<rparr>)"
  by (simp add: dollar_percent_row_def run_defs)

lemma extract_name_symbol_row:
  "extract_from_row name_symbol_row =
     Inr (empty_coin\<lparr>name := py ''Bitcoin'', symbol := py ''BTC''\<rparr>)"
  by (simp add: name_symbol_row_def run_defs)

lemma extract_xrp_row:
  "extract_from_row xrp_row = Inr (empty_coin\<lparr>symbol := py ''XRP''\<rparr>)"
  by (simp add: xrp_row_def run_defs)

lemma extract_two_names_row:
  "extract_from_row two_names_row =
     Inr (empty_coin\<lparr>name := py ''Bitcoin'', symbol := py ''BTC''\<rparr>)"
  by (simp add: two_names_row_def run_defs)

lemma extract_short_dollars_row:
  "extract_from_row short_dollars_row =
     Inr (empty_coin\<lparr>price := py ''$1'', volume_24h := py ''$22''\<rparr>)"
  by (simp add: short_dollars_row_def run_defs)

lemma extract_tied_caps_row:
  "extract_from_row tied_caps_row =
     Inr (empty_coin\<lparr>price := py ''$12'', market_cap := py ''$1234567'',
       volume_24h := py ''$7654321''\<rparr>)"
  by (simp add: tied_caps_row_def run_defs)

lemma extract_renumbered_row:
  "extract_from_row renumbered_row =
     Inr (bitcoin\<lparr>rank := py ''2'', price := py ''$6''\<rparr>)"
  by (simp add: renumbered_row_def bitcoin_def run_defs)

section \<open>Properties of the text normalizer\<close>

lemma re_sub_ws_hd: "s \<noteq> [] \<Longrightarrow> \<not> is_space (hd s) \<Longrightarrow> \<not> is_space (hd (re_sub_ws s))"
  by (cases s) auto

lemma re_sub_ws_Nil: "re_sub_ws s \<noteq> [] \<Longrightarrow> s \<noteq> []"
  by (cases s) auto

lemma re_sub_ws_dropWhile_hd:
  assumes "re_sub_ws (dropWhile is_space cs) \<noteq> []"
  shows "\<not> is_space (hd (re_sub_ws (dropWhile is_space cs)))"
proof -
  from assms have ne: "dropWhile is_space cs \<noteq> []" by (rule re_sub_ws_Nil)
  then have "\<not> is_space (hd (dropWhile is_space cs))" by (rule hd_dropWhile)
  with ne show ?thesis by (rule re_sub_ws_hd)
qed

lemma single_spaced_Cons:
  "single_spaced (c # s) \<longleftrightarrow>
     (is_space c \<longrightarrow> c = 32 \<and> (s \<noteq> [] \<longrightarrow> \<not> is_space (hd s))) \<and> single_spaced s"
  by (cases s) auto

lemma single_spaced_re_sub_ws: "single_spaced (re_sub_ws s)"
proof (induction s rule: re_sub_ws.induct)
  case 1
  show ?case by simp
next
  case (2 c cs)
  show ?case
  proof (cases "is_space c")
    case True
    with 2 have "single_spaced (re_sub_ws (dropWhile is_space cs))" by simp
    then have "single_spaced (32 # re_sub_ws (dropWhile is_space cs))"
      using re_sub_ws_dropWhile_hd [of cs] by (simp only: single_spaced_Cons) blast
    with True show ?thesis by simp
  next
    case False
    with 2 have "single_spaced (re_sub_ws cs)" by simp
    with False show ?thesis by (simp add: single_spaced_Cons)
  qed
qed

lemma single_spaced_append:
  "single_spaced (xs @ ys) \<Longrightarrow> single_spaced xs \<and> single_spaced ys"
proof (induction xs)
  case Nil
  then show ?case by simp
next
  case (Cons x xs)
  then show ?case by (cases xs) (simp_all add: single_spaced_Cons)
qed

lemma strip_prefix:
  "dropWhile is_space s = strip s @ rev (takeWhile is_space (rev (dropWhile is_space s)))"
proof -
  let ?t = "dropWhile is_space s"
  have "rev ?t = takeWhile is_space (rev ?t) @ dropWhile is_space (rev ?t)" by simp
  then have "rev (rev ?t) = rev (takeWhile is_space (rev ?t) @ dropWhile is_space (rev ?t))"
    by (rule arg_cong)
  then show ?thesis by (simp only: rev_rev_ident rev_append strip_def)
qed

lemma single_spaced_strip: "single_spaced s \<Longrightarrow> single_spaced (strip s)"
proof -
  assume s: "single_spaced s"
  let ?t = "dropWhile is_space s"
  have "s = takeWhile is_space s @ ?t" by simp
  with s have "single_spaced (takeWhile is_space s @ ?t)" by simp
  then have t: "single_spaced ?t" by (rule single_spaced_append [THEN conjunct2])
  then have "single_spaced (strip s @ rev (takeWhile is_space (rev ?t)))"
    using strip_prefix [of s] by simp
  then show ?thesis by (rule single_spaced_append [THEN conjunct1])
qed

lemma strip_ends:
  assumes "strip s \<noteq> []"
  shows "\<not> is_space (hd (strip s))" and "\<not> is_space (last (strip s))"
proof -
  let ?t = "dropWhile is_space s"
  let ?u = "dropWhile is_space (rev ?t)"
  from assms have u: "?u \<noteq> []" by (simp only: strip_def rev_is_Nil_conv not_False_eq_True)
  then have "\<not> is_space (hd ?u)" by (rule hd_dropWhile)
  moreover have "last (strip s) = hd ?u" using u by (simp only: strip_def last_rev)
  ultimately show "\<not> is_space (last (strip s))" by simp
  have t: "?t \<noteq> []"
  proof
    assume "?t = []"
    then have "strip s = []" by (simp only: strip_def rev.simps dropWhile.simps)
    with assms show False by simp
  qed
  then have ht: "\<not> is_space (hd ?t)" by (rule hd_dropWhile)
  have "hd ?t = hd (strip s @ rev (takeWhile is_space (rev ?t)))"
    using strip_prefix [of s] by simp
  also have "\<dots> = hd (strip s)" using assms by (rule hd_append2)
  finally show "\<not> is_space (hd (strip s))" using ht by simp
qed

lemma normalized_clean_text: "normalized (clean_text x)"
proof (cases x)
  case None
  then show ?thesis by (simp add: clean_text_def normalized_def)
next
  case (Some s)
  have "single_spaced (strip (re_sub_ws s))"
    by (rule single_spaced_strip) (rule single_spaced_re_sub_ws)
  with Some show ?thesis
    using strip_ends [of "re_sub_ws s"] by (simp add: clean_text_def normalized_def)
qed

lemma re_sub_ws_id: "single_spaced s \<Longrightarrow> re_sub_ws s = s"
proof (induction s rule: re_sub_ws.induct)
  case 1
  show ?case by simp
next
  case (2 c cs)
  show ?case
  proof (cases "is_space c")
    case True
    with 2(3) have c: "c = 32" and cs: "cs \<noteq> [] \<longrightarrow> \<not> is_space (hd cs)"
      and ss: "single_spaced cs"
      by (simp_all add: single_spaced_Cons)
    from cs have "dropWhile is_space cs = cs" by (cases cs) simp_all
    with 2(1) True ss c show ?thesis by simp
  next
    case False
    with 2 show ?thesis by (simp add: single_spaced_Cons)
  qed
qed

lemma strip_id:
  assumes "s \<noteq> [] \<longrightarrow> \<not> is_space (hd s) \<and> \<not> is_space (last s)"
  shows "strip s = s"
proof (cases s)
  case Nil
  then show ?thesis by (simp add: strip_def)
next
  case (Cons a list)
  with assms have h: "\<not> is_space (hd s)" and l: "\<not> is_space (last s)" by simp_all
  from h Cons have 1: "dropWhile is_space s = s" by simp
  from Cons have "rev s \<noteq> []" by simp
  moreover have "hd (rev s) = last s" by (simp add: hd_rev)
  with l have "\<not> is_space (hd (rev s))" by simp
  ultimately have "dropWhile is_space (rev s) = rev s" by (cases "rev s") simp_all
  with 1 show ?thesis by (simp add: strip_def)
qed

lemma clean_text_id: "normalized s \<Longrightarrow> clean_text (Some s) = s"
  by (simp add: clean_text_def normalized_def re_sub_ws_id strip_id)

section \<open>The row extractor never raises\<close>

lemma tds_normalized: "t \<in> set (collect_tds r) \<Longrightarrow> normalized t"
  by (auto simp: collect_tds_def normalized_clean_text split: sum.splits)

lemma clean_text_Nil: "clean_text (Some []) = []"
  by (simp add: clean_text_def strip_def)

lemma extract_failing:
  assumes "isl (td_count r)" "isl (name_count r)" "isl (price_count r)"
  shows "cleanup (extract_fields r) = empty_coin"
proof -
  from assms have tds: "collect_tds r = []" by (auto simp: collect_tds_def isl_def)
  from assms have h: "hints r d = d" for d by (auto simp: hints_def hint_name_def isl_def)
  from assms have p: "hint_price r d = d" for d by (auto simp: hint_price_def isl_def)
  show ?thesis
    by (simp add: extract_fields_def tds h p rank_of_def fallback_def price_step_def change_of_def
        market_cap_of_def volume_of_def cleanup_def empty_coin_def clean_text_Nil)
qed

lemma failed_cell:
  "td_count r = Inr n \<Longrightarrow> i < n \<Longrightarrow> isl (td_text r i) \<Longrightarrow> collect_tds r ! i = []"
  by (auto simp: collect_tds_def isl_def safe_text_def clean_text_Nil)

lemma failing_row_sel:
  "td_count failing_row = Inl PlaywrightTimeoutError"
  "name_count failing_row = Inl OtherException"
  "price_count failing_row = Inl OtherException"
  by (simp_all add: failing_row_def)

text \<open>A call that raises counts like an element that is absent or a text that is empty.\<close>

lemma hints_cong:
  "name_count r' = name_count r \<Longrightarrow> name_text r' = name_text r \<Longrightarrow>
   sym_count r' = sym_count r \<Longrightarrow> sym_text r' = sym_text r \<Longrightarrow> hints r' d = hints r d"
  by (auto simp: hints_def hint_name_def hint_symbol_def split: sum.splits)

lemma hint_price_cong:
  "price_count r' = price_count r \<Longrightarrow> price_text r' = price_text r \<Longrightarrow>
   hint_price r' d = hint_price r d"
  by (auto simp: hint_price_def split: sum.splits)

lemma hints_rank: "rank (hints r d) = rank d"
  by (auto simp: hints_def hint_name_def hint_symbol_def Let_def split: sum.splits)

lemma hints_price: "price (hints r d) = price d"
  by (auto simp: hints_def hint_name_def hint_symbol_def Let_def split: sum.splits)

lemma hints_symbol:
  "isl (sym_count r) \<or> isl (sym_text r) \<Longrightarrow> symbol (hints r d) = symbol d"
  by (auto simp: hints_def hint_name_def hint_symbol_def isl_def Let_def split: sum.splits)

lemma hint_price_fields:
  "rank (hint_price r d) = rank d" "name (hint_price r d) = name d"
  "symbol (hint_price r d) = symbol d"
  by (simp_all add: hint_price_def split: sum.splits)

lemma extract_fields_cong:
  assumes "collect_tds r' = collect_tds r" "\<And>d. hints r' d = hints r d"
    "\<And>d. hint_price r' d = hint_price r d"
  shows "extract_from_row r' = extract_from_row r"
  using assms by (simp add: extract_from_row_def extract_fields_def price_step_def Let_def)

lemma absorb_td_count:
  "isl (td_count r) \<Longrightarrow> extract_from_row (r\<lparr>td_count := Inr 0\<rparr>) = extract_from_row r"
  by (rule extract_fields_cong)
     (auto simp: collect_tds_def isl_def intro: hints_cong hint_price_cong)

lemma absorb_td_text:
  "isl (td_text r i) \<Longrightarrow>
   extract_from_row (r\<lparr>td_text := (td_text r)(i := Inr (Some []))\<rparr>) = extract_from_row r"
  by (rule extract_fields_cong)
     (auto simp: collect_tds_def isl_def safe_text_def clean_text_Nil split: sum.splits
       intro: hints_cong hint_price_cong)

lemma absorb_name:
  "isl (name_count r) \<or> name_count r \<noteq> Inr 0 \<and> isl (name_text r) \<Longrightarrow>
   extract_from_row (r\<lparr>name_count := Inr 0, sym_count := Inr 0\<rparr>) = extract_from_row r"
  by (rule extract_fields_cong)
     (auto simp: collect_tds_def isl_def hints_def hint_name_def hint_symbol_def
       split: sum.splits intro: hint_price_cong)

lemma absorb_symbol:
  "isl (sym_count r) \<or> isl (sym_text r) \<Longrightarrow>
   extract_from_row (r\<lparr>sym_count := Inr 0\<rparr>) = extract_from_row r"
  by (rule extract_fields_cong)
     (auto simp: collect_tds_def isl_def hints_def hint_name_def hint_symbol_def
       split: sum.splits intro: hint_price_cong)

lemma absorb_price:
  "isl (price_count r) \<or> isl (price_text r) \<Longrightarrow>
   extract_from_row (r\<lparr>price_count := Inr 0\<rparr>) = extract_from_row r"
  by (rule extract_fields_cong)
     (auto simp: collect_tds_def isl_def hint_price_def split: sum.splits intro: hints_cong)

lemma no_cells:
  assumes "isl (td_count r)"
  shows "rank (cleanup (extract_fields r)) = [] \<and> change_24h (cleanup (extract_fields r)) = [] \<and>
    market_cap (cleanup (extract_fields r)) = [] \<and> volume_24h (cleanup (extract_fields r)) = [] \<and>
    circulating_supply (cleanup (extract_fields r)) = []"
proof -
  from assms have tds: "collect_tds r = []" by (auto simp: collect_tds_def isl_def)
  show ?thesis
    by (simp add: extract_fields_def tds rank_of_def change_of_def market_cap_of_def
        volume_of_def cleanup_def clean_text_Nil Let_def fallback_def price_step_def
        hints_rank hint_price_fields empty_coin_def)
qed

lemma no_cells_name:
  assumes "isl (td_count r)" "isl (name_count r) \<or> name_count r \<noteq> Inr 0 \<and> isl (name_text r)"
  shows "name (cleanup (extract_fields r)) = [] \<and> symbol (cleanup (extract_fields r)) = []"
proof -
  from assms have tds: "collect_tds r = []" by (auto simp: collect_tds_def isl_def)
  from assms(2) have h: "hints r d = d" for d
    by (auto simp: hints_def hint_name_def isl_def split: sum.splits)
  show ?thesis
    by (simp add: extract_fields_def tds h fallback_def price_step_def hint_price_fields
        cleanup_def clean_text_Nil empty_coin_def Let_def)
qed

lemma no_cells_symbol:
  assumes "isl (td_count r)" "isl (sym_count r) \<or> isl (sym_text r)"
  shows "symbol (cleanup (extract_fields r)) = []"
proof -
  from assms have tds: "collect_tds r = []" by (auto simp: collect_tds_def isl_def)
  show ?thesis
    by (simp add: extract_fields_def tds hints_symbol [OF assms(2)] fallback_def price_step_def
        hint_price_fields cleanup_def clean_text_Nil empty_coin_def Let_def)
qed

lemma no_cells_price:
  assumes "isl (td_count r)" "isl (price_count r) \<or> isl (price_text r)"
  shows "price (cleanup (extract_fields r)) = []"
proof -
  from assms have tds: "collect_tds r = []" by (auto simp: collect_tds_def isl_def)
  from assms(2) have p: "hint_price r d = d" for d
    by (auto simp: hint_price_def isl_def split: sum.splits)
  show ?thesis
    by (simp add: extract_fields_def tds fallback_def price_step_def p hints_price
        cleanup_def clean_text_Nil empty_coin_def Let_def)
qed

lemma partly_failing_row_sel:
  "isl (td_text partly_failing_row (Suc 0))" "name_count partly_failing_row \<noteq> Inr 0"
  "isl (name_text partly_failing_row)" "isl (sym_text partly_failing_row)"
  "isl (price_text partly_failing_row)"
  by (simp_all add: partly_failing_row_def)

text \<open>
  Claim C1. For every row, whatever its calls answer or raise, \<open>extract_from_row\<close>
  returns a record (it never ends in an exception); the record has the eight fields of
  \<open>coin\<close>, each of them a normalized string. Every failure is absorbed as an empty
  value: a cell count that raises gives the record of the row without cells, a cell text
  that raises the record of the row with the empty text in that cell, a name lookup that
  raises the record of the row without name and symbol elements, a symbol lookup that
  raises the record of the row without symbol element, and a price lookup that raises the
  record of the row without price element. When the cell count raises, the five fields
  read from the cells alone are empty, and so are name, symbol or price when their lookup
  raises too; when the cell count and the lookups all raise, every field is empty.
\<close>

theorem extract_from_row_never_raises:
  "\<exists>d. extract_from_row r = Inr d \<and>
     normalized (rank d) \<and> normalized (name d) \<and> normalized (symbol d) \<and>
     normalized (price d) \<and> normalized (change_24h d) \<and> normalized (market_cap d) \<and>
     normalized (volume_24h d) \<and> normalized (circulating_supply d) \<and>
     (isl (td_count r) \<and> isl (name_count r) \<and> isl (price_count r) \<longrightarrow> d = empty_coin) \<and>
     (\<forall>n i. td_count r = Inr n \<and> i < n \<and> isl (td_text r i) \<longrightarrow> collect_tds r ! i = []) \<and>
     (isl (td_count r) \<longrightarrow> extract_from_row (r\<lparr>td_count := Inr 0\<rparr>) = Inr d) \<and>
     (\<forall>i. isl (td_text r i) \<longrightarrow>
        extract_from_row (r\<lparr>td_text := (td_text r)(i := Inr (Some []))\<rparr>) = Inr d) \<and>
     (isl (name_count r) \<or> name_count r \<noteq> Inr 0 \<and> isl (name_text r) \<longrightarrow>
        extract_from_row (r\<lparr>name_count := Inr 0, sym_count := Inr 0\<rparr>) = Inr d) \<and>
     (isl (sym_count r) \<or> isl (sym_text r) \<longrightarrow>
        extract_from_row (r\<lparr>sym_count := Inr 0\<rparr>) = Inr d) \<and>
     (isl (price_count r) \<or> isl (price_text r) \<longrightarrow>
        extract_from_row (r\<lparr>price_count := Inr 0\<rparr>) = Inr d) \<and>
     (isl (td_count r) \<longrightarrow>
        rank d = [] \<and> change_24h d = [] \<and> market_cap d = [] \<and> volume_24h d = [] \<and>
        circulating_supply d = []) \<and>
     (isl (td_count r) \<and> (isl (name_count r) \<or> name_count r \<noteq> Inr 0 \<and> isl (name_text r)) \<longrightarrow>
        name d = [] \<and> symbol d = []) \<and>
     (isl (td_count r) \<and> (isl (sym_count r) \<or> isl (sym_text r)) \<longrightarrow> symbol d = []) \<and>
     (isl (td_count r) \<and> (isl (price_count r) \<or> isl (price_text r)) \<longrightarrow> price d = [])"
proof -
  let ?d = "cleanup (extract_fields r)"
  have ex: "extract_from_row r = Inr ?d" by (simp add: extract_from_row_def)
  have n1: "normalized (rank ?d)" and n2: "normalized (name ?d)"
    and n3: "normalized (symbol ?d)" and n4: "normalized (price ?d)"
    and n5: "normalized (change_24h ?d)" and n6: "normalized (market_cap ?d)"
    and n7: "normalized (volume_24h ?d)" and n8: "normalized (circulating_supply ?d)"
    by (simp_all add: cleanup_def normalized_clean_text)
  have all: "isl (td_count r) \<and> isl (name_count r) \<and> isl (price_count r) \<longrightarrow> ?d = empty_coin"
    by (simp add: extract_failing)
  have cell: "\<forall>n i. td_count r = Inr n \<and> i < n \<and> isl (td_text r i) \<longrightarrow> collect_tds r ! i = []"
    by (simp add: failed_cell)
  have a1: "isl (td_count r) \<longrightarrow> extract_from_row (r\<lparr>td_count := Inr 0\<rparr>) = Inr ?d"
    using absorb_td_count [of r] ex by simp
  have a2: "\<forall>i. isl (td_text r i) \<longrightarrow>
      extract_from_row (r\<lparr>td_text := (td_text r)(i := Inr (Some []))\<rparr>) = Inr ?d"
    using absorb_td_text [of r] ex by simp
  have a3: "isl (name_count r) \<or> name_count r \<noteq> Inr 0 \<and> isl (name_text r) \<longrightarrow>
      extract_from_row (r\<lparr>name_count := Inr 0, sym_count := Inr 0\<rparr>) = Inr ?d"
    using absorb_name [of r] ex by simp
  have a4: "isl (sym_count r) \<or> isl (sym_text r) \<longrightarrow>
      extract_from_row (r\<lparr>sym_count := Inr 0\<rparr>) = Inr ?d"
    using absorb_symbol [of r] ex by simp
  have a5: "isl (price_count r) \<or> isl (price_text r) \<longrightarrow>
      extract_from_row (r\<lparr>price_count := Inr 0\<rparr>) = Inr ?d"
    using absorb_price [of r] ex by simp
  have e1: "isl (td_count r) \<longrightarrow>
      rank ?d = [] \<and> change_24h ?d = [] \<and> market_cap ?d = [] \<and> volume_24h ?d = [] \<and>
      circulating_supply ?d = []"
    using no_cells [of r] by blast
  have e2: "isl (td_count r) \<and> (isl (name_count r) \<or> name_count r \<noteq> Inr 0 \<and> isl (name_text r)) \<longrightarrow>
      name ?d = [] \<and> symbol ?d = []"
    using no_cells_name [of r] by blast
  have e3: "isl (td_count r) \<and> (isl (sym_count r) \<or> isl (sym_text r)) \<longrightarrow> symbol ?d = []"
    using no_cells_symbol [of r] by blast
  have e4: "isl (td_count r) \<and> (isl (price_count r) \<or> isl (price_text r)) \<longrightarrow> price ?d = []"
    using no_cells_price [of r] by blast
  show ?thesis
    by (intro exI [of _ ?d] conjI)
       (rule ex n1 n2 n3 n4 n5 n6 n7 n8 all cell a1 a2 a3 a4 a5 e1 e2 e3 e4)+
qed

theorem extract_from_row_never_raises_witness:
  "extract_from_row failing_row = Inr empty_coin \<and>
   extract_from_row partly_failing_row =
     Inr (empty_coin\<lparr>name := py ''Bitcoin'', symbol := py ''BTC''\<rparr>) \<and>
   extract_from_row (partly_failing_row\<lparr>price_count := Inr 0\<rparr>) =
     Inr (empty_coin\<lparr>name := py ''Bitcoin'', symbol := py ''BTC''\<rparr>) \<and>
   extract_from_row (partly_failing_row\<lparr>name_count := Inr 0, sym_count := Inr 0\<rparr>) =
     Inr (empty_coin\<lparr>name := py ''Bitcoin'', symbol := py ''BTC''\<rparr>) \<and>
   extract_from_row (partly_failing_row
       \<lparr>td_text := (td_text partly_failing_row)(1 := Inr (Some []))\<rparr>) =
     Inr (empty_coin\<lparr>name := py ''Bitcoin'', symbol := py ''BTC''\<rparr>)"
proof -
  have f: "extract_from_row failing_row = Inr empty_coin"
    using extract_from_row_never_raises [of failing_row]
    by (elim exE conjE) (simp only: failing_row_sel sum.disc simp_thms)
  have p: "extract_from_row (partly_failing_row\<lparr>price_count := Inr 0\<rparr>) =
        Inr (empty_coin\<lparr>name := py ''Bitcoin'', symbol := py ''BTC''\<rparr>) \<and>
      extract_from_row (partly_failing_row\<lparr>name_count := Inr 0, sym_count := Inr 0\<rparr>) =
        Inr (empty_coin\<lparr>name := py ''Bitcoin'', symbol := py ''BTC''\<rparr>) \<and>
      extract_from_row (partly_failing_row
          \<lparr>td_text := (td_text partly_failing_row)(1 := Inr (Some []))\<rparr>) =
        Inr (empty_coin\<lparr>name := py ''Bitcoin'', symbol := py ''BTC''\<rparr>)"
    using extract_from_row_never_raises [of partly_failing_row]
    unfolding extract_partly_failing_row
    by (simp add: partly_failing_row_sel)
  from f p show ?thesis by (simp only: extract_partly_failing_row simp_thms)
qed

section \<open>Properties of the collection loop\<close>

lemma scan_rows_stop: "tc \<le> int (length rs) \<Longrightarrow> scan_rows tc pg is rs = rs"
  by (cases "is") simp_all

lemma scan_rows_length:
  "int (length rs) \<le> tc \<Longrightarrow> int (length (scan_rows tc pg is rs)) \<le> tc"
  by (induction "is" arbitrary: rs) (auto split: sum.splits)

lemma scan_rows_prefix: "prefix rs (scan_rows tc pg is rs)"
proof (induction "is" arbitrary: rs)
  case Nil
  show ?case by simp
next
  case (Cons i "is")
  have "prefix rs (scan_rows tc pg is (rs @ [d]))" for d
    using Cons [of "rs @ [d]"] by (metis append_prefixD)
  with Cons show ?case by (auto split: sum.splits)
qed

lemma dedup_inv_snoc:
  assumes "dedup_inv rs"
    and "\<not> (rank d \<noteq> [] \<and> list_ex (\<lambda>r. rank r = rank d) rs)"
    and "\<not> (name d \<noteq> [] \<and> list_ex (\<lambda>r. name r = name d) rs)"
  shows "dedup_inv (rs @ [d])"
  using assms by (auto simp: dedup_inv_def list_ex_iff)

lemma scan_rows_dedup: "dedup_inv rs \<Longrightarrow> dedup_inv (scan_rows tc pg is rs)"
proof (induction "is" arbitrary: rs)
  case Nil
  then show ?case by simp
next
  case (Cons i "is")
  show ?case
  proof (cases "extract_from_row (row_at pg i)")
    case (Inl e)
    with Cons show ?thesis by simp
  next
    case (Inr d)
    show ?thesis
    proof (cases "tc \<le> int (length rs) \<or> (name d = [] \<and> price d = [] \<and> rank d = [])
        \<or> (rank d \<noteq> [] \<and> list_ex (\<lambda>r. rank r = rank d) rs)
        \<or> (name d \<noteq> [] \<and> list_ex (\<lambda>r. name r = name d) rs)")
      case True
      with Inr Cons show ?thesis by auto
    next
      case False
      then have "dedup_inv (rs @ [d])" using Cons.prems by (intro dedup_inv_snoc) auto
      then have "dedup_inv (scan_rows tc pg is (rs @ [d]))" by (rule Cons.IH)
      with False Inr show ?thesis by auto
    qed
  qed
qed

lemma scan_rows_usable:
  "\<forall>d\<in>set rs. usable d \<Longrightarrow> \<forall>d\<in>set (scan_rows tc pg is rs). usable d"
proof (induction "is" arbitrary: rs)
  case Nil
  then show ?case by simp
next
  case (Cons i "is")
  show ?case
  proof (cases "extract_from_row (row_at pg i)")
    case (Inl e)
    with Cons show ?thesis by simp
  next
    case (Inr d)
    show ?thesis
    proof (cases "usable d")
      case True
      with Cons.prems have "\<forall>x\<in>set (rs @ [d]). usable x" by simp
      then have "\<forall>x\<in>set (scan_rows tc pg is (rs @ [d])). usable x" by (rule Cons.IH)
      with Inr Cons show ?thesis by simp
    next
      case False
      with Inr Cons show ?thesis by (simp add: usable_def)
    qed
  qed
qed

lemma while_loop_unfold:
  "while_loop w tc s =
     (if int (length (results s)) < tc \<and> navigations s < MAX_PAGE_NAVIGATIONS
      then (let pg = pages w (page_no s);
                rs = scan_rows tc pg [0..<rows_on pg] (results s);
                s1 = s\<lparr>results := rs, navigations := navigations s + 1\<rparr>;
                s2 = s1\<lparr>clicks := clicks s + fst (paginate pg)\<rparr>
            in if int (length rs) < tc
               then (if snd (paginate pg) then while_loop w tc (s2\<lparr>page_no := page_no s + 1\<rparr>)
                     else s2)
               else s1)
      else s)"
proof -
  have stop: "while_loop w tc s' = s'" if "\<not> int (length (results s')) < tc" for s'
    using that by (simp add: while_loop.simps [of w tc s'])
  show ?thesis
    by (subst while_loop.simps) (simp add: Let_def stop split: prod.splits)
qed

lemma paginate_clicks: "fst (paginate pg) \<le> 1" "snd (paginate pg) \<Longrightarrow> fst (paginate pg) = 1"
  by (auto simp: paginate_def split: sum.splits if_splits)

lemma while_loop_rule:
  assumes init: "P s"
    and step: "\<And>s rs k. P s \<Longrightarrow> int (length (results s)) < tc \<Longrightarrow>
        navigations s < MAX_PAGE_NAVIGATIONS \<Longrightarrow>
        rs = scan_rows tc (pages w (page_no s)) [0..<rows_on (pages w (page_no s))] (results s) \<Longrightarrow>
        k = fst (paginate (pages w (page_no s))) \<Longrightarrow>
        P (s\<lparr>results := rs, navigations := navigations s + 1\<rparr>) \<and>
        P (s\<lparr>results := rs, navigations := navigations s + 1, clicks := clicks s + k\<rparr>) \<and>
        (snd (paginate (pages w (page_no s))) \<longrightarrow>
         P (s\<lparr>results := rs, navigations := navigations s + 1, clicks := clicks s + k,
              page_no := page_no s + 1\<rparr>))"
  shows "P (while_loop w tc s)"
  using init
proof (induction "MAX_PAGE_NAVIGATIONS - navigations s" arbitrary: s rule: less_induct)
  case less
  show ?case
  proof (cases "int (length (results s)) < tc \<and> navigations s < MAX_PAGE_NAVIGATIONS")
    case False
    with less.prems show ?thesis by (subst while_loop_unfold) auto
  next
    case True
    let ?pg = "pages w (page_no s)"
    let ?rs = "scan_rows tc ?pg [0..<rows_on ?pg] (results s)"
    let ?k = "fst (paginate ?pg)"
    let ?s1 = "s\<lparr>results := ?rs, navigations := navigations s + 1\<rparr>"
    let ?s2 = "s\<lparr>results := ?rs, navigations := navigations s + 1, clicks := clicks s + ?k\<rparr>"
    let ?s3 = "s\<lparr>results := ?rs, navigations := navigations s + 1, clicks := clicks s + ?k,
      page_no := page_no s + 1\<rparr>"
    from step [OF less.prems, of ?rs ?k] True
    have p1: "P ?s1" and p2: "P ?s2" and p3: "snd (paginate ?pg) \<Longrightarrow> P ?s3"
      by simp_all
    show ?thesis
    proof (cases "int (length ?rs) < tc \<and> snd (paginate ?pg)")
      case False
      with True p1 p2 show ?thesis by (subst while_loop_unfold) (auto simp: Let_def)
    next
      case go: True
      have "MAX_PAGE_NAVIGATIONS - navigations ?s3 < MAX_PAGE_NAVIGATIONS - navigations s"
        using True by auto
      then have "P (while_loop w tc ?s3)" using p3 go by (intro less.hyps) simp_all
      with True go show ?thesis by (subst while_loop_unfold) (simp add: Let_def)
    qed
  qed
qed

lemma while_loop_length:
  "int (length (results s)) \<le> tc \<Longrightarrow> int (length (results (while_loop w tc s))) \<le> tc"
  by (rule while_loop_rule [where P = "\<lambda>s. int (length (results s)) \<le> tc"])
     (simp_all add: scan_rows_length)


lemma while_loop_navigations:
  "navigations s \<le> MAX_PAGE_NAVIGATIONS \<Longrightarrow>
   navigations (while_loop w tc s) \<le> MAX_PAGE_NAVIGATIONS"
  by (rule while_loop_rule [where P = "\<lambda>s. navigations s \<le> MAX_PAGE_NAVIGATIONS"]) simp_all

lemma while_loop_clicks:
  "page_no s \<le> clicks s \<and> clicks s \<le> navigations s \<Longrightarrow>
   page_no (while_loop w tc s) \<le> clicks (while_loop w tc s) \<and>
   clicks (while_loop w tc s) \<le> navigations (while_loop w tc s)"
proof (rule while_loop_rule
    [where P = "\<lambda>s. page_no s \<le> clicks s \<and> clicks s \<le> navigations s"], goal_cases)
  case 1
  then show ?case by simp
next
  case (2 s rs k)
  then show ?case
    using paginate_clicks [of "pages w (page_no s)"] by auto
qed

lemma while_loop_prefix: "prefix (results s) (results (while_loop w tc s))"
proof (rule while_loop_rule [where P = "\<lambda>t. prefix (results s) (results t)"], goal_cases)
  case 1
  show ?case by simp
next
  case (2 t rs k)
  have "prefix (results t) rs" using 2(4) by (simp add: scan_rows_prefix)
  with 2(1) have "prefix (results s) rs" by (rule prefix_order.trans)
  then show ?case by simp
qed

lemma while_loop_dedup: "dedup_inv (results s) \<Longrightarrow> dedup_inv (results (while_loop w tc s))"
  by (rule while_loop_rule [where P = "\<lambda>s. dedup_inv (results s)"])
     (simp_all add: scan_rows_dedup)

lemma while_loop_usable:
  "\<forall>d\<in>set (results s). usable d \<Longrightarrow> \<forall>d\<in>set (results (while_loop w tc s)). usable d"
  by (rule while_loop_rule [where P = "\<lambda>s. \<forall>d\<in>set (results s). usable d"])
     (simp_all add: scan_rows_usable)

end
